theory Spec2Isabelle
  imports Complex_Main
begin

text \<open>
  A model of the keystroke analysis of TypeWho: \<open>calculateTypingPattern\<close>, which
  turns a sequence of key events into a typing pattern, and \<open>comparePatterns\<close>,
  which scores two patterns against each other, together with the two callers that
  gate a prediction on 75 events (the endpoint \<open>POST /api/predict\<close> and
  \<open>predictUser\<close> of the application). The definitions follow the source statement
  by statement and keep its names. Line numbers for the two functions are those of
  \<open>project/vite.extension.config.ts\<close>, the file of the source tree that holds them;
  line numbers for \<open>predictUser\<close> are those of the application component.
\<close>

section \<open>JavaScript numbers\<close>

text \<open>
  The analysis code computes with JavaScript numbers. A number is modelled as a real
  or one of the three special values that division and \<open>Math.sqrt\<close> can produce.
  Rounding of finite results is not modelled (finite arithmetic is exact), and zero
  carries no sign: a non-zero number divided by zero is the infinity with the sign of
  the numerator, and zero divided by zero is \<open>NaN\<close>, as in the language.
\<close>

datatype jsnum = Num real | PInf | NInf | NaN

fun js_neg :: "jsnum \<Rightarrow> jsnum" where
  "js_neg (Num a) = Num (- a)"
| "js_neg PInf = NInf"
| "js_neg NInf = PInf"
| "js_neg NaN = NaN"

fun js_add :: "jsnum \<Rightarrow> jsnum \<Rightarrow> jsnum" where
  "js_add (Num a) (Num b) = Num (a + b)"
| "js_add NaN y = NaN"
| "js_add x NaN = NaN"
| "js_add PInf NInf = NaN"
| "js_add NInf PInf = NaN"
| "js_add PInf y = PInf"
| "js_add x PInf = PInf"
| "js_add NInf y = NInf"
| "js_add x NInf = NInf"

definition js_sub :: "jsnum \<Rightarrow> jsnum \<Rightarrow> jsnum" where
  "js_sub x y = js_add x (js_neg y)"

fun js_mul :: "jsnum \<Rightarrow> jsnum \<Rightarrow> jsnum" where
  "js_mul (Num a) (Num b) = Num (a * b)"
| "js_mul NaN y = NaN"
| "js_mul x NaN = NaN"
| "js_mul PInf (Num b) = (if b = 0 then NaN else if 0 < b then PInf else NInf)"
| "js_mul NInf (Num b) = (if b = 0 then NaN else if 0 < b then NInf else PInf)"
| "js_mul (Num a) PInf = (if a = 0 then NaN else if 0 < a then PInf else NInf)"
| "js_mul (Num a) NInf = (if a = 0 then NaN else if 0 < a then NInf else PInf)"
| "js_mul PInf PInf = PInf"
| "js_mul NInf NInf = PInf"
| "js_mul PInf NInf = NInf"
| "js_mul NInf PInf = NInf"

fun js_div :: "jsnum \<Rightarrow> jsnum \<Rightarrow> jsnum" where
  "js_div (Num a) (Num b) =
     (if b = 0 then (if a = 0 then NaN else if 0 < a then PInf else NInf)
      else Num (a / b))"
| "js_div NaN y = NaN"
| "js_div x NaN = NaN"
| "js_div (Num a) PInf = Num 0"
| "js_div (Num a) NInf = Num 0"
| "js_div PInf (Num b) = (if 0 \<le> b then PInf else NInf)"
| "js_div NInf (Num b) = (if 0 \<le> b then NInf else PInf)"
| "js_div PInf PInf = NaN"
| "js_div PInf NInf = NaN"
| "js_div NInf PInf = NaN"
| "js_div NInf NInf = NaN"

fun js_abs :: "jsnum \<Rightarrow> jsnum" where
  "js_abs (Num a) = Num \<bar>a\<bar>"
| "js_abs PInf = PInf"
| "js_abs NInf = PInf"
| "js_abs NaN = NaN"

text \<open>\<open>Math.sqrt(x)\<close>.\<close>

fun js_sqrt :: "jsnum \<Rightarrow> jsnum" where
  "js_sqrt (Num a) = (if a < 0 then NaN else Num (sqrt a))"
| "js_sqrt PInf = PInf"
| "js_sqrt NInf = NaN"
| "js_sqrt NaN = NaN"

text \<open>\<open>Math.pow(x, 0.5)\<close>: unlike \<open>Math.sqrt\<close> it maps \<open>-Infinity\<close> to \<open>Infinity\<close>.\<close>

fun js_pow_half :: "jsnum \<Rightarrow> jsnum" where
  "js_pow_half (Num a) = (if a < 0 then NaN else Num (sqrt a))"
| "js_pow_half PInf = PInf"
| "js_pow_half NInf = PInf"
| "js_pow_half NaN = NaN"

text \<open>\<open>Math.pow(x, 2)\<close>.\<close>

fun js_pow2 :: "jsnum \<Rightarrow> jsnum" where
  "js_pow2 (Num a) = Num (a * a)"
| "js_pow2 PInf = PInf"
| "js_pow2 NInf = PInf"
| "js_pow2 NaN = NaN"

text \<open>\<open>Math.exp(x)\<close>.\<close>

fun js_exp :: "jsnum \<Rightarrow> jsnum" where
  "js_exp (Num a) = Num (exp a)"
| "js_exp PInf = PInf"
| "js_exp NInf = Num 0"
| "js_exp NaN = NaN"

text \<open>The relational operators: every comparison with \<open>NaN\<close> is false.\<close>

fun js_lt :: "jsnum \<Rightarrow> jsnum \<Rightarrow> bool" where
  "js_lt (Num a) (Num b) = (a < b)"
| "js_lt NaN y = False"
| "js_lt x NaN = False"
| "js_lt x NInf = False"
| "js_lt PInf y = False"
| "js_lt NInf y = True"
| "js_lt x PInf = True"

definition js_gt :: "jsnum \<Rightarrow> jsnum \<Rightarrow> bool" where
  "js_gt x y = js_lt y x"

definition js_ge :: "jsnum \<Rightarrow> jsnum \<Rightarrow> bool" where
  "js_ge x y = (js_lt y x \<or> (x = y \<and> x \<noteq> NaN))"

text \<open>\<open>Math.min\<close> and \<open>Math.max\<close> of two arguments: \<open>NaN\<close> if either is.\<close>

definition js_min :: "jsnum \<Rightarrow> jsnum \<Rightarrow> jsnum" where
  "js_min x y = (if x = NaN \<or> y = NaN then NaN else if js_lt y x then y else x)"

definition js_max :: "jsnum \<Rightarrow> jsnum \<Rightarrow> jsnum" where
  "js_max x y = (if x = NaN \<or> y = NaN then NaN else if js_lt x y then y else x)"

text \<open>\<open>Math.max(a, b, c)\<close>.\<close>

definition js_max3 :: "jsnum \<Rightarrow> jsnum \<Rightarrow> jsnum \<Rightarrow> jsnum" where
  "js_max3 x y z = js_max (js_max x y) z"

text \<open>A number is falsy (\<open>x || 0\<close> yields \<open>0\<close>) when it is zero or \<open>NaN\<close>.\<close>

fun js_falsy :: "jsnum \<Rightarrow> bool" where
  "js_falsy (Num a) = (a = 0)"
| "js_falsy NaN = True"
| "js_falsy x = False"

text \<open>\<open>xs.reduce((a, b) => a + b, 0)\<close>.\<close>

definition js_sum :: "jsnum list \<Rightarrow> jsnum" where
  "js_sum xs = foldl js_add (Num 0) xs"

fun is_finite :: "jsnum \<Rightarrow> bool" where
  "is_finite (Num a) = True"
| "is_finite x = False"

text \<open>Membership of the closed interval \<open>[0, 1]\<close>; no special value belongs to it.\<close>

fun in_unit :: "jsnum \<Rightarrow> bool" where
  "in_unit (Num a) = (0 \<le> a \<and> a \<le> 1)"
| "in_unit x = False"

section \<open>Arrays and objects\<close>

text \<open>
  \<open>xs.slice(start, end)\<close> with integer arguments: a negative index counts from the
  end, and both are clamped to the array. \<open>-0\<close> is \<open>0\<close>.
\<close>

definition js_slice :: "'a list \<Rightarrow> int \<Rightarrow> int \<Rightarrow> 'a list" where
  "js_slice xs start end =
     (let n = int (length xs);
          s = (if start < 0 then max (n + start) 0 else min start n);
          e = (if end < 0 then max (n + end) 0 else min end n)
      in take (nat (e - s)) (drop (nat s) xs))"

text \<open>\<open>xs.slice(start)\<close> and \<open>xs.slice(start, undefined)\<close>: up to the end.\<close>

definition js_slice_from :: "'a list \<Rightarrow> int \<Rightarrow> 'a list" where
  "js_slice_from xs start = js_slice xs start (int (length xs))"

text \<open>
  \<open>xs[i]\<close> on an array of numbers. Out of range the language yields \<open>undefined\<close>,
  which every arithmetic operator turns into \<open>NaN\<close>.
\<close>

definition js_index :: "jsnum list \<Rightarrow> nat \<Rightarrow> jsnum" where
  "js_index xs i = (if i < length xs then xs ! i else NaN)"

text \<open>
  \<open>xs.sort((a, b) => a - b)\<close>, as a stable insertion sort driven by the comparator:
  \<open>a\<close> goes behind \<open>b\<close> exactly when \<open>a - b > 0\<close>. On finite numbers this is the
  ascending stable sort the language prescribes; with \<open>NaN\<close> or equal infinities the
  comparator is inconsistent and the language leaves the order to the implementation.
\<close>

fun sort_insert :: "jsnum \<Rightarrow> jsnum list \<Rightarrow> jsnum list" where
  "sort_insert x [] = [x]"
| "sort_insert x (y # ys) =
     (if js_gt (js_sub x y) (Num 0) then y # sort_insert x ys else x # y # ys)"

fun js_sort :: "jsnum list \<Rightarrow> jsnum list" where
  "js_sort [] = []"
| "js_sort (x # xs) = sort_insert x (js_sort xs)"

text \<open>
  A plain object used as a dictionary is an association list with distinct keys in
  insertion order. (The language enumerates keys that are array indices, such as
  \<open>"7"\<close>, before the others; the order of enumeration is not modelled beyond
  insertion order.) Only own properties are looked up.
\<close>

type_synonym 'v obj = "(string \<times> 'v) list"

fun obj_set :: "'v obj \<Rightarrow> string \<Rightarrow> 'v \<Rightarrow> 'v obj" where
  "obj_set [] k v = [(k, v)]"
| "obj_set ((k', v') # kvs) k v =
     (if k' = k then (k', v) # kvs else (k', v') # obj_set kvs k v)"

definition obj_keys :: "'v obj \<Rightarrow> string list" where
  "obj_keys d = map fst d"

definition obj_values :: "'v obj \<Rightarrow> 'v list" where
  "obj_values d = map snd d"

text \<open>\<open>new Set(xs)\<close>, enumerated in order of first insertion.\<close>

definition js_set_of :: "string list \<Rightarrow> string list" where
  "js_set_of xs = foldl (\<lambda>acc k. if k \<in> set acc then acc else acc @ [k]) [] xs"

section \<open>The data model\<close>

text \<open>
  A string is a list of characters, and its length the number of them; the source
  counts UTF-16 code units.
\<close>

record Modifiers =
  ctrl :: bool
  alt :: bool
  shift :: bool
  meta :: bool

record KeyEvent =
  key :: string
  code :: string
  timestamp :: jsnum
  timeSinceLast :: jsnum
  modifiers :: Modifiers

text \<open>
  The shape of a \<open>TypingPattern\<close>. Its three dictionaries and its array are objects
  of their own: the type is parametric in how they are held, by value (\<open>TypingPattern\<close>)
  or by reference into a heap (further down).
\<close>

record ('o, 'a) TypingPattern_of =
  averageSpeed :: jsnum
  keyPressDistribution :: 'o
  modifierUsage :: 'o
  timingPatterns :: 'a
  specialKeyFrequency :: 'o
  backspaceFrequency :: jsnum
  averageWordLength :: jsnum
  rhythmConsistency :: jsnum
  modifierFrequency :: jsnum
  capitalFrequency :: jsnum
  punctuationFrequency :: jsnum
  burstSpeed :: jsnum
  pauseFrequency :: jsnum
  speedVariability :: jsnum
  keyPressForce :: jsnum
  errorRate :: jsnum

type_synonym TypingPattern = "(jsnum obj, jsnum list) TypingPattern_of"

section \<open>calculateTypingPattern\<close>

text \<open>The initial value of \<open>pattern\<close>: every number zero, every container empty.\<close>

definition default_pattern :: TypingPattern where
  "default_pattern =
     \<lparr> averageSpeed = Num 0, keyPressDistribution = [], modifierUsage = [],
       timingPatterns = [], specialKeyFrequency = [], backspaceFrequency = Num 0,
       averageWordLength = Num 0, rhythmConsistency = Num 0, modifierFrequency = Num 0,
       capitalFrequency = Num 0, punctuationFrequency = Num 0, burstSpeed = Num 0,
       pauseFrequency = Num 0, speedVariability = Num 0, keyPressForce = Num 0,
       errorRate = Num 0 \<rparr>"

text \<open>
  \<open>Math.floor(n * 0.1)\<close>, \<open>Math.floor(n * 0.2)\<close>, \<open>Math.floor(n * 0.25)\<close> and
  \<open>Math.floor(n * 0.75)\<close> for an array length \<open>n\<close> are the integer quotients.
\<close>

definition floor_tenth :: "nat \<Rightarrow> nat" where
  "floor_tenth n = n div 10"

definition floor_fifth :: "nat \<Rightarrow> nat" where
  "floor_fifth n = n div 5"

definition floor_quarter :: "nat \<Rightarrow> nat" where
  "floor_quarter n = n div 4"

definition floor_three_quarters :: "nat \<Rightarrow> nat" where
  "floor_three_quarters n = (3 * n) div 4"

text \<open>
  Lines 50 to 54: the trimmed mean, from \<open>sortedIntervals\<close> (the sorted copy of the
  intervals).
\<close>

definition trimmedIntervals :: "jsnum list \<Rightarrow> jsnum list" where
  "trimmedIntervals sortedIntervals =
     (let trimAmount = floor_tenth (length sortedIntervals)
      in js_slice sortedIntervals (int trimAmount) (- int trimAmount))"

definition calc_averageSpeed :: "jsnum list \<Rightarrow> jsnum" where
  "calc_averageSpeed sortedIntervals =
     (let trimmed = trimmedIntervals sortedIntervals
      in js_div (js_sum trimmed) (Num (real (length trimmed))))"

text \<open>Lines 56 to 59: the coefficient of variation.\<close>

definition calc_variance :: "jsnum list \<Rightarrow> jsnum \<Rightarrow> jsnum" where
  "calc_variance intervals mean =
     js_div (foldl (\<lambda>acc val. js_add acc (js_pow2 (js_sub val mean))) (Num 0) intervals)
            (Num (real (length intervals)))"

definition calc_rhythmConsistency :: "jsnum list \<Rightarrow> jsnum \<Rightarrow> jsnum" where
  "calc_rhythmConsistency intervals mean = js_div (js_sqrt (calc_variance intervals mean)) mean"

text \<open>Lines 61 to 64: the interquartile range over the mean.\<close>

definition calc_speedVariability :: "jsnum list \<Rightarrow> jsnum \<Rightarrow> jsnum" where
  "calc_speedVariability sortedIntervals avg =
     (let q1 = js_index sortedIntervals (floor_quarter (length sortedIntervals));
          q3 = js_index sortedIntervals (floor_three_quarters (length sortedIntervals))
      in js_div (js_sub q3 q1) avg)"

text \<open>Lines 66 to 68.\<close>

definition calc_pauseFrequency :: "jsnum list \<Rightarrow> jsnum \<Rightarrow> jsnum" where
  "calc_pauseFrequency intervals avg =
     (let pauseThreshold = js_mul avg (Num 2)
      in js_div (Num (real (length (filter (\<lambda>i. js_gt i pauseThreshold) intervals))))
                (Num (real (length intervals))))"

text \<open>
  Lines 70 to 77: the loop \<open>for (i = 0; i <= intervals.length - windowSize; i++)\<close>
  runs over the integers from \<open>0\<close> to \<open>length - windowSize\<close>, none when that bound is
  negative, and \<open>minBurst\<close> starts at \<open>Infinity\<close>.
\<close>

definition windowSize :: "jsnum list \<Rightarrow> nat" where
  "windowSize intervals = max 5 (floor_fifth (length intervals))"

definition windowAvg :: "jsnum list \<Rightarrow> nat \<Rightarrow> jsnum" where
  "windowAvg intervals i =
     js_div (js_sum (js_slice intervals (int i) (int i + int (windowSize intervals))))
            (Num (real (windowSize intervals)))"

definition calc_burstSpeed :: "jsnum list \<Rightarrow> jsnum" where
  "calc_burstSpeed intervals =
     foldl (\<lambda>minBurst i. js_min minBurst (windowAvg intervals (nat i))) PInf
           [0 .. int (length intervals) - int (windowSize intervals)]"

text \<open>Lines 79 to 126: the local variables of the pass over the events.\<close>

record scan =
  wordBuffer :: string
  wordLengths :: "nat list"
  modifierCount :: nat
  capitalCount :: nat
  punctuationCount :: nat
  backspaceCount :: nat
  totalChars :: nat
  keyDistribution :: "nat obj"
  usage :: "jsnum obj"

definition scan_init :: scan where
  "scan_init =
     \<lparr> wordBuffer = [], wordLengths = [], modifierCount = 0, capitalCount = 0,
       punctuationCount = 0, backspaceCount = 0, totalChars = 0, keyDistribution = [],
       usage = [] \<rparr>"

text \<open>\<open>Object.values(event.modifiers).some(v => v)\<close>.\<close>

definition any_modifier :: "Modifiers \<Rightarrow> bool" where
  "any_modifier m = (ctrl m \<or> alt m \<or> shift m \<or> meta m)"

text \<open>The regular expressions \<open>/[A-Z]/\<close> and \<open>/[.,!?;:'"]/\<close> on a key.\<close>

definition is_capital :: "char \<Rightarrow> bool" where
  "is_capital c = ((of_char (CHR ''A'') :: nat) \<le> of_char c \<and> (of_char c :: nat) \<le> of_char (CHR ''Z''))"

definition is_punctuation :: "char \<Rightarrow> bool" where
  "is_punctuation c = (c \<in> set ''.,!?;:'' \<or> c = CHR 0x27 \<or> c = CHR 0x22)"

definition matches_capital :: "string \<Rightarrow> bool" where
  "matches_capital k = list_ex is_capital k"

definition matches_punctuation :: "string \<Rightarrow> bool" where
  "matches_punctuation k = list_ex is_punctuation k"

text \<open>\<open>keyDistribution[k] = (keyDistribution[k] || 0) + 1\<close>; the counts are naturals.\<close>

definition count_key :: "nat obj \<Rightarrow> string \<Rightarrow> nat obj" where
  "count_key d k = obj_set d k ((case map_of d k of None \<Rightarrow> 0 | Some c \<Rightarrow> c) + 1)"

text \<open>The three blocks of the callback of \<open>events.forEach\<close>, in order.\<close>

definition step_modifier :: "KeyEvent \<Rightarrow> scan \<Rightarrow> scan" where
  "step_modifier event s =
     (if any_modifier (modifiers event)
      then (let s1 = s\<lparr>modifierCount := modifierCount s + 1\<rparr>;
                timing = timeSinceLast event
            in if js_gt timing (Num 0)
               then s1\<lparr>usage := obj_set (usage s1) (key event) timing\<rparr>
               else s1)
      else s)"

definition step_char :: "KeyEvent \<Rightarrow> scan \<Rightarrow> scan" where
  "step_char event s =
     (if length (key event) = 1
      then (let s1 = s\<lparr>totalChars := totalChars s + 1,
                        keyDistribution := count_key (keyDistribution s) (key event)\<rparr>;
                s2 = (if matches_capital (key event)
                      then s1\<lparr>capitalCount := capitalCount s1 + 1\<rparr> else s1);
                s3 = (if matches_punctuation (key event)
                      then s2\<lparr>punctuationCount := punctuationCount s2 + 1\<rparr> else s2)
            in if key event = '' '' \<or> key event = ''Enter''
               then (if length (wordBuffer s3) > 0
                     then s3\<lparr>wordLengths := wordLengths s3 @ [length (wordBuffer s3)],
                             wordBuffer := []\<rparr>
                     else s3)
               else s3\<lparr>wordBuffer := wordBuffer s3 @ key event\<rparr>)
      else s)"

definition step_backspace :: "KeyEvent \<Rightarrow> scan \<Rightarrow> scan" where
  "step_backspace event s =
     (if key event = ''Backspace''
      then (let s1 = s\<lparr>backspaceCount := backspaceCount s + 1\<rparr>
            in if length (wordBuffer s1) > 0
               then s1\<lparr>wordBuffer := butlast (wordBuffer s1)\<rparr>
               else s1)
      else s)"

definition step :: "scan \<Rightarrow> KeyEvent \<Rightarrow> scan" where
  "step s event = step_backspace event (step_char event (step_modifier event s))"

definition scan_events :: "KeyEvent list \<Rightarrow> scan" where
  "scan_events events = foldl step scan_init events"

text \<open>Lines 128 to 131.\<close>

definition final_wordLengths :: "scan \<Rightarrow> nat list" where
  "final_wordLengths s =
     (if length (wordBuffer s) > 0 then wordLengths s @ [length (wordBuffer s)]
      else wordLengths s)"

text \<open>Lines 133 to 142: the smoothed distribution.\<close>

definition calc_keyPressDistribution :: "nat obj \<Rightarrow> jsnum obj" where
  "calc_keyPressDistribution kd =
     (let totalKeyPresses = js_sum (map (\<lambda>c. Num (real c)) (obj_values kd));
          alpha = Num (1 / 10);
          vocabSize = Num (real (length (obj_keys kd)))
      in map (\<lambda>(k, count). (k, js_div (js_add (Num (real count)) alpha)
                                        (js_add totalKeyPresses (js_mul alpha vocabSize))))
             kd)"

text \<open>Lines 144 to 146.\<close>

definition calc_errorRate :: "scan \<Rightarrow> jsnum \<Rightarrow> jsnum" where
  "calc_errorRate s sv =
     (let normalizedBackspaceRate =
            js_div (Num (real (backspaceCount s)))
                   (Num (real (totalChars s + backspaceCount s)))
      in js_mul normalizedBackspaceRate (js_add (Num 1) sv))"

text \<open>
  Lines 151 to 153, from the sorted \<open>wordLengths\<close>: here the end of the slice is
  \<open>-trimCount || undefined\<close>, so a trim of zero keeps the whole array.
\<close>

definition trimmedLengths :: "nat list \<Rightarrow> nat list" where
  "trimmedLengths sortedLengths =
     (let trimCount = floor_tenth (length sortedLengths)
      in if trimCount = 0 then js_slice_from sortedLengths (int trimCount)
         else js_slice sortedLengths (int trimCount) (- int trimCount))"

definition calc_averageWordLength :: "nat list \<Rightarrow> jsnum" where
  "calc_averageWordLength sortedLengths =
     (let trimmed = trimmedLengths sortedLengths
      in js_div (js_sum (map (\<lambda>n. Num (real n)) trimmed)) (Num (real (length trimmed))))"

definition calculateTypingPattern :: "KeyEvent list \<Rightarrow> TypingPattern" where
  "calculateTypingPattern events =
     (if length events < 2 then default_pattern
      else
        (let intervals = map timeSinceLast (js_slice_from events 1);
             sortedIntervals = js_sort intervals;
             avg = calc_averageSpeed sortedIntervals;
             sv = calc_speedVariability sortedIntervals avg;
             s = scan_events events
         in default_pattern
            \<lparr> timingPatterns := intervals,
              averageSpeed := avg,
              rhythmConsistency := calc_rhythmConsistency intervals avg,
              speedVariability := sv,
              pauseFrequency := calc_pauseFrequency intervals avg,
              burstSpeed := calc_burstSpeed intervals,
              modifierUsage := usage s,
              keyPressDistribution := calc_keyPressDistribution (keyDistribution s),
              errorRate := calc_errorRate s sv,
              averageWordLength :=
                (if length (final_wordLengths s) > 0
                 then calc_averageWordLength (sort (final_wordLengths s))
                 else Num 0),
              modifierFrequency :=
                (if length events > 0
                 then js_div (Num (real (modifierCount s))) (Num (real (length events)))
                 else Num 0),
              capitalFrequency :=
                (if totalChars s > 0
                 then js_div (Num (real (capitalCount s))) (Num (real (totalChars s)))
                 else Num 0),
              punctuationFrequency :=
                (if totalChars s > 0
                 then js_div (Num (real (punctuationCount s))) (Num (real (totalChars s)))
                 else Num 0),
              backspaceFrequency :=
                (if totalChars s > 0
                 then js_div (Num (real (backspaceCount s))) (Num (real (totalChars s)))
                 else Num 0) \<rparr>))"

section \<open>comparePatterns\<close>

text \<open>\<open>getWeight\<close>: the base weight scaled to between 50 and 100 percent.\<close>

definition getWeight :: "jsnum \<Rightarrow> jsnum \<Rightarrow> jsnum \<Rightarrow> jsnum" where
  "getWeight metric1 metric2 baseWeight =
     (let stability = js_sub (Num 1) (js_div (js_abs (js_sub metric1 metric2))
                                             (js_max3 metric1 metric2 (Num 1)))
      in js_mul baseWeight (js_add (Num (1 / 2)) (js_mul (Num (1 / 2)) stability)))"

text \<open>\<open>d[key] || 0\<close> on a dictionary of numbers.\<close>

definition freq_of :: "jsnum obj \<Rightarrow> string \<Rightarrow> jsnum" where
  "freq_of d k =
     (case map_of d k of None \<Rightarrow> Num 0 | Some v \<Rightarrow> if js_falsy v then Num 0 else v)"

text \<open>
  The body of \<open>allKeys.forEach\<close>: the pair is \<open>(keyDistSimilarity,
  keyDistTotalWeight)\<close>.
\<close>

definition keyDist_step ::
  "jsnum obj \<Rightarrow> jsnum obj \<Rightarrow> jsnum \<times> jsnum \<Rightarrow> string \<Rightarrow> jsnum \<times> jsnum" where
  "keyDist_step d1 d2 acc k =
     (let freq1 = freq_of d1 k; freq2 = freq_of d2 k
      in if js_gt freq1 (Num 0) \<or> js_gt freq2 (Num 0)
         then (let keyWeight = js_max freq1 freq2;
                   similarity = js_sub (Num 1)
                     (js_div (js_abs (js_sub freq1 freq2))
                             (js_max3 freq1 freq2 (Num (1 / 100))))
               in (js_add (fst acc) (js_mul similarity keyWeight),
                   js_add (snd acc) keyWeight))
         else acc)"

definition keyDist_loop :: "jsnum obj \<Rightarrow> jsnum obj \<Rightarrow> jsnum \<times> jsnum" where
  "keyDist_loop d1 d2 =
     foldl (keyDist_step d1 d2) (Num 0, Num 0) (js_set_of (obj_keys d1 @ obj_keys d2))"

definition keyDistSimilarity :: "jsnum obj \<Rightarrow> jsnum obj \<Rightarrow> jsnum" where
  "keyDistSimilarity d1 d2 =
     (let acc = keyDist_loop d1 d2
      in if js_gt (snd acc) (Num 0) then js_div (fst acc) (snd acc) else Num 0)"

definition vocab :: "TypingPattern \<Rightarrow> jsnum" where
  "vocab p = Num (real (length (obj_keys (keyPressDistribution p))))"

definition speedSimilarity :: "TypingPattern \<Rightarrow> TypingPattern \<Rightarrow> jsnum" where
  "speedSimilarity pattern1 pattern2 =
     (let speedRatio = js_div (js_min (averageSpeed pattern1) (averageSpeed pattern2))
                              (js_max (averageSpeed pattern1) (averageSpeed pattern2))
      in js_pow_half speedRatio)"

definition rhythmSimilarity :: "TypingPattern \<Rightarrow> TypingPattern \<Rightarrow> jsnum" where
  "rhythmSimilarity pattern1 pattern2 =
     js_exp (js_neg (js_abs (js_sub (rhythmConsistency pattern1) (rhythmConsistency pattern2))))"

definition timingSimilarity :: "TypingPattern \<Rightarrow> TypingPattern \<Rightarrow> jsnum" where
  "timingSimilarity pattern1 pattern2 =
     (let burstSpeedSimilarity =
            js_div (js_min (burstSpeed pattern1) (burstSpeed pattern2))
                   (js_max (burstSpeed pattern1) (burstSpeed pattern2));
          pauseSimilarity =
            js_sub (Num 1) (js_abs (js_sub (pauseFrequency pattern1) (pauseFrequency pattern2)))
      in js_add (js_mul burstSpeedSimilarity (Num (6 / 10)))
                (js_mul pauseSimilarity (Num (4 / 10))))"

definition styleSimilarity :: "TypingPattern \<Rightarrow> TypingPattern \<Rightarrow> jsnum" where
  "styleSimilarity pattern1 pattern2 =
     (let modifierSimilarity =
            js_sub (Num 1)
              (js_abs (js_sub (modifierFrequency pattern1) (modifierFrequency pattern2)));
          capitalSimilarity =
            js_sub (Num 1)
              (js_abs (js_sub (capitalFrequency pattern1) (capitalFrequency pattern2)));
          punctuationSimilarity =
            js_sub (Num 1)
              (js_abs (js_sub (punctuationFrequency pattern1) (punctuationFrequency pattern2)))
      in js_add (js_add (js_mul modifierSimilarity (Num (4 / 10)))
                        (js_mul capitalSimilarity (Num (3 / 10))))
                (js_mul punctuationSimilarity (Num (3 / 10))))"

text \<open>Lines 249 to 255.\<close>

definition confidenceMultiplier :: "TypingPattern \<Rightarrow> TypingPattern \<Rightarrow> jsnum" where
  "confidenceMultiplier pattern1 pattern2 =
     js_min (Num 1)
       (js_mul (js_mul (js_sqrt (js_div (vocab pattern1) (Num 20)))
                       (js_sqrt (js_div (vocab pattern2) (Num 20))))
               (js_sub (Num 1) (js_abs (js_sub (errorRate pattern1) (errorRate pattern2)))))"

text \<open>Lines 239 to 247: the weighted average of the five sub-scores.\<close>

definition rawSimilarity :: "TypingPattern \<Rightarrow> TypingPattern \<Rightarrow> jsnum" where
  "rawSimilarity pattern1 pattern2 =
     (let speedWeight = getWeight (averageSpeed pattern1) (averageSpeed pattern2) (Num (3 / 10));
          keyDistWeight = getWeight (vocab pattern1) (vocab pattern2) (Num (25 / 100));
          rhythmWeight =
            getWeight (rhythmConsistency pattern1) (rhythmConsistency pattern2) (Num (2 / 10));
          timingWeight =
            getWeight (pauseFrequency pattern1) (pauseFrequency pattern2) (Num (15 / 100));
          styleWeight =
            getWeight (js_add (modifierFrequency pattern1) (capitalFrequency pattern1))
                      (js_add (modifierFrequency pattern2) (capitalFrequency pattern2))
                      (Num (1 / 10));
          finalTotalWeight =
            js_add (js_add (js_add (js_add speedWeight keyDistWeight) rhythmWeight)
                           timingWeight) styleWeight
      in js_div
           (js_add (js_add (js_add (js_add
              (js_mul (speedSimilarity pattern1 pattern2) speedWeight)
              (js_mul (keyDistSimilarity (keyPressDistribution pattern1)
                                         (keyPressDistribution pattern2)) keyDistWeight))
              (js_mul (rhythmSimilarity pattern1 pattern2) rhythmWeight))
              (js_mul (timingSimilarity pattern1 pattern2) timingWeight))
              (js_mul (styleSimilarity pattern1 pattern2) styleWeight))
           finalTotalWeight)"

definition comparePatterns :: "TypingPattern \<Rightarrow> TypingPattern \<Rightarrow> jsnum" where
  "comparePatterns pattern1 pattern2 =
     js_mul (rawSimilarity pattern1 pattern2) (confidenceMultiplier pattern1 pattern2)"

section \<open>The same functions over a heap\<close>

text \<open>
  Arrays and objects are mutable and held by reference. To say what a call may have
  changed, the two functions are given a second time over an explicit heap: a list of
  cells, an address being an index into it. Allocation appends a cell; assignment to a
  property, \<open>push\<close> and the in-place \<open>sort\<close> overwrite the cell of the object they are
  applied to. Every array or object that the source binds to a variable or stores in a
  property has a cell; a temporary that an expression creates and drops at once (the
  result of \<open>events.slice(1)\<close>, of \<open>filter\<close>, of \<open>Object.values\<close>) has none, since
  nothing can refer to it afterwards. A key event is never assigned to, so events are
  held by value in the cell of their array. The numbers computed are those of the
  functions above, applied to what is read from the heap.
\<close>

type_synonym addr = nat

datatype cell =
    EventArray "KeyEvent list"
  | NumArray "jsnum list"
  | CountArray "nat list"
  | NumObject "jsnum obj"
  | CountObject "nat obj"
  | KeySet "string list"
  | PatternObject "(addr, addr) TypingPattern_of"

type_synonym heap = "cell list"

definition alloc :: "cell \<Rightarrow> heap \<Rightarrow> addr \<times> heap" where
  "alloc c h = (length h, h @ [c])"

definition write_cell :: "addr \<Rightarrow> cell \<Rightarrow> heap \<Rightarrow> heap" where
  "write_cell a c h = h[a := c]"

text \<open>
  Reading a cell at its type. The type checker of the source excludes a read at
  another type; the model then reads an empty container.
\<close>

definition events_at :: "heap \<Rightarrow> addr \<Rightarrow> KeyEvent list" where
  "events_at h a =
     (if a < length h then (case h ! a of EventArray es \<Rightarrow> es | _ \<Rightarrow> []) else [])"

definition nums_at :: "heap \<Rightarrow> addr \<Rightarrow> jsnum list" where
  "nums_at h a =
     (if a < length h then (case h ! a of NumArray xs \<Rightarrow> xs | _ \<Rightarrow> []) else [])"

definition counts_at :: "heap \<Rightarrow> addr \<Rightarrow> nat list" where
  "counts_at h a =
     (if a < length h then (case h ! a of CountArray xs \<Rightarrow> xs | _ \<Rightarrow> []) else [])"

definition num_obj_at :: "heap \<Rightarrow> addr \<Rightarrow> jsnum obj" where
  "num_obj_at h a =
     (if a < length h then (case h ! a of NumObject d \<Rightarrow> d | _ \<Rightarrow> []) else [])"

definition count_obj_at :: "heap \<Rightarrow> addr \<Rightarrow> nat obj" where
  "count_obj_at h a =
     (if a < length h then (case h ! a of CountObject d \<Rightarrow> d | _ \<Rightarrow> []) else [])"

definition pattern_refs :: "addr \<Rightarrow> addr \<Rightarrow> addr \<Rightarrow> addr \<Rightarrow> (addr, addr) TypingPattern_of" where
  "pattern_refs kpd mu tp skf =
     \<lparr> averageSpeed = Num 0, keyPressDistribution = kpd, modifierUsage = mu,
       timingPatterns = tp, specialKeyFrequency = skf, backspaceFrequency = Num 0,
       averageWordLength = Num 0, rhythmConsistency = Num 0, modifierFrequency = Num 0,
       capitalFrequency = Num 0, punctuationFrequency = Num 0, burstSpeed = Num 0,
       pauseFrequency = Num 0, speedVariability = Num 0, keyPressForce = Num 0,
       errorRate = Num 0 \<rparr>"

definition pattern_obj_at :: "heap \<Rightarrow> addr \<Rightarrow> (addr, addr) TypingPattern_of" where
  "pattern_obj_at h a =
     (if a < length h
      then (case h ! a of PatternObject p \<Rightarrow> p | _ \<Rightarrow> pattern_refs 0 0 0 0)
      else pattern_refs 0 0 0 0)"

text \<open>The pattern at an address, with its containers read through their references.\<close>

definition pattern_at :: "heap \<Rightarrow> addr \<Rightarrow> TypingPattern" where
  "pattern_at h a =
     (let p = pattern_obj_at h a
      in \<lparr> averageSpeed = averageSpeed p,
           keyPressDistribution = num_obj_at h (keyPressDistribution p),
           modifierUsage = num_obj_at h (modifierUsage p),
           timingPatterns = nums_at h (timingPatterns p),
           specialKeyFrequency = num_obj_at h (specialKeyFrequency p),
           backspaceFrequency = backspaceFrequency p,
           averageWordLength = averageWordLength p,
           rhythmConsistency = rhythmConsistency p,
           modifierFrequency = modifierFrequency p,
           capitalFrequency = capitalFrequency p,
           punctuationFrequency = punctuationFrequency p,
           burstSpeed = burstSpeed p,
           pauseFrequency = pauseFrequency p,
           speedVariability = speedVariability p,
           keyPressForce = keyPressForce p,
           errorRate = errorRate p \<rparr>)"

text \<open>\<open>pattern.field = value\<close>: the pattern object is overwritten in place.\<close>

definition update_pattern ::
  "addr \<Rightarrow> ((addr, addr) TypingPattern_of \<Rightarrow> (addr, addr) TypingPattern_of) \<Rightarrow> heap \<Rightarrow> heap" where
  "update_pattern p f h = write_cell p (PatternObject (f (pattern_obj_at h p))) h"

text \<open>Lines 25 to 42: the object literal allocates the pattern and its four containers.\<close>

definition new_pattern :: "heap \<Rightarrow> addr \<times> heap" where
  "new_pattern h0 =
     (let (kpd, h1) = alloc (NumObject []) h0;
          (mu, h2) = alloc (NumObject []) h1;
          (tp, h3) = alloc (NumArray []) h2;
          (skf, h4) = alloc (NumObject []) h3
      in alloc (PatternObject (pattern_refs kpd mu tp skf)) h4)"

text \<open>
  Lines 46 to 77. \<open>intervals\<close> is a new array, which \<open>pattern.timingPatterns\<close> then
  shares; \<open>sortedIntervals\<close> is a copy of it (\<open>[...intervals]\<close>), and it is the copy
  that \<open>sort\<close> reorders in place.
\<close>

definition timing_h :: "addr \<Rightarrow> addr \<Rightarrow> heap \<Rightarrow> heap" where
  "timing_h events p h0 =
     (let (intervals, h1) =
            alloc (NumArray (map timeSinceLast (js_slice_from (events_at h0 events) 1))) h0;
          h2 = update_pattern p (\<lambda>pat. pat\<lparr>timingPatterns := intervals\<rparr>) h1;
          (sortedIntervals, h3) = alloc (NumArray (nums_at h2 intervals)) h2;
          h4 = write_cell sortedIntervals (NumArray (js_sort (nums_at h3 sortedIntervals))) h3;
          h5 = update_pattern p
                 (\<lambda>pat. pat\<lparr>averageSpeed := calc_averageSpeed (nums_at h4 sortedIntervals)\<rparr>) h4;
          mean = averageSpeed (pattern_obj_at h5 p);
          h6 = update_pattern p
                 (\<lambda>pat. pat\<lparr>rhythmConsistency :=
                           calc_rhythmConsistency (nums_at h5 intervals) mean\<rparr>) h5;
          h7 = update_pattern p
                 (\<lambda>pat. pat\<lparr>speedVariability :=
                           calc_speedVariability (nums_at h6 sortedIntervals)
                             (averageSpeed pat)\<rparr>) h6;
          h8 = update_pattern p
                 (\<lambda>pat. pat\<lparr>pauseFrequency :=
                           calc_pauseFrequency (nums_at h7 intervals) (averageSpeed pat)\<rparr>) h7
      in update_pattern p (\<lambda>pat. pat\<lparr>burstSpeed := calc_burstSpeed (nums_at h8 intervals)\<rparr>) h8)"

text \<open>
  Lines 88 to 126: one round of \<open>events.forEach\<close>. The scalar locals travel in the
  \<open>scan\<close> record; \<open>pattern.modifierUsage\<close>, \<open>wordLengths\<close> and \<open>keyDistribution\<close>
  are read from their cells and written back to the same cells.
\<close>

definition write_back :: "addr \<Rightarrow> addr \<Rightarrow> addr \<Rightarrow> scan \<Rightarrow> heap \<Rightarrow> heap" where
  "write_back mu wl kd s h =
     write_cell kd (CountObject (keyDistribution s))
       (write_cell wl (CountArray (wordLengths s))
          (write_cell mu (NumObject (usage s)) h))"

definition step_h :: "addr \<Rightarrow> addr \<Rightarrow> addr \<Rightarrow> scan \<times> heap \<Rightarrow> KeyEvent \<Rightarrow> scan \<times> heap" where
  "step_h p wl kd sh event =
     (let s = fst sh; h = snd sh;
          mu = modifierUsage (pattern_obj_at h p);
          s' = step (s\<lparr>usage := num_obj_at h mu, wordLengths := counts_at h wl,
                       keyDistribution := count_obj_at h kd\<rparr>) event
      in (s', write_back mu wl kd s' h))"

text \<open>Lines 79 to 131: the locals, the loop and the last word.\<close>

definition scan_h :: "addr \<Rightarrow> addr \<Rightarrow> heap \<Rightarrow> (scan \<times> addr \<times> addr) \<times> heap" where
  "scan_h events p h0 =
     (let (wl, h1) = alloc (CountArray []) h0;
          (kd, h2) = alloc (CountObject []) h1;
          (s, h3) = foldl (step_h p wl kd) (scan_init, h2) (events_at h2 events);
          h4 = (if length (wordBuffer s) > 0
                then write_cell wl (CountArray (counts_at h3 wl @ [length (wordBuffer s)])) h3
                else h3)
      in ((s, wl, kd), h4))"

text \<open>
  Lines 133 to 161. \<open>Object.fromEntries\<close> makes a new object for the distribution;
  \<open>wordLengths.sort\<close> reorders the local array in place.
\<close>

definition finish_h :: "addr \<Rightarrow> addr \<Rightarrow> scan \<Rightarrow> addr \<Rightarrow> addr \<Rightarrow> heap \<Rightarrow> heap" where
  "finish_h events p s wl kd h0 =
     (let (dist, h1) = alloc (NumObject (calc_keyPressDistribution (count_obj_at h0 kd))) h0;
          h2 = update_pattern p (\<lambda>pat. pat\<lparr>keyPressDistribution := dist\<rparr>) h1;
          h3 = update_pattern p
                 (\<lambda>pat. pat\<lparr>errorRate := calc_errorRate s (speedVariability pat)\<rparr>) h2;
          h4 = (if length (counts_at h3 wl) > 0
                then (let h' = write_cell wl (CountArray (sort (counts_at h3 wl))) h3
                      in update_pattern p
                           (\<lambda>pat. pat\<lparr>averageWordLength :=
                                     calc_averageWordLength (counts_at h' wl)\<rparr>) h')
                else h3);
          n = length (events_at h4 events)
      in update_pattern p
           (\<lambda>pat. pat
              \<lparr> modifierFrequency :=
                  (if n > 0 then js_div (Num (real (modifierCount s))) (Num (real n))
                   else Num 0),
                capitalFrequency :=
                  (if totalChars s > 0
                   then js_div (Num (real (capitalCount s))) (Num (real (totalChars s)))
                   else Num 0),
                punctuationFrequency :=
                  (if totalChars s > 0
                   then js_div (Num (real (punctuationCount s))) (Num (real (totalChars s)))
                   else Num 0),
                backspaceFrequency :=
                  (if totalChars s > 0
                   then js_div (Num (real (backspaceCount s))) (Num (real (totalChars s)))
                   else Num 0) \<rparr>) h4)"

text \<open>
  \<open>calculateTypingPattern(events)\<close>: from the address of the event array and the heap
  to the address of the pattern and the heap after the call.
\<close>

definition calculateTypingPattern_h :: "addr \<Rightarrow> heap \<Rightarrow> addr \<times> heap" where
  "calculateTypingPattern_h events h0 =
     (let (p, h1) = new_pattern h0
      in if length (events_at h1 events) < 2 then (p, h1)
         else (let h2 = timing_h events p h1;
                   ((s, wl, kd), h3) = scan_h events p h2
               in (p, finish_h events p s wl kd h3)))"

text \<open>
  \<open>comparePatterns(pattern1, pattern2)\<close>: the function assigns to local variables
  only; the one object it creates is the set \<open>allKeys\<close>.
\<close>

definition comparePatterns_h :: "addr \<Rightarrow> addr \<Rightarrow> heap \<Rightarrow> jsnum \<times> heap" where
  "comparePatterns_h pattern1 pattern2 h0 =
     (let (allKeys, h1) =
            alloc (KeySet (js_set_of (obj_keys (keyPressDistribution (pattern_at h0 pattern1)) @
                                      obj_keys (keyPressDistribution (pattern_at h0 pattern2)))))
                  h0
      in (comparePatterns (pattern_at h1 pattern1) (pattern_at h1 pattern2), h1))"

section \<open>The callers: the prediction endpoint and the prediction button\<close>

text \<open>
  Both callers are modelled together with a log of the calls of \<open>comparePatterns\<close>
  they make, each entry the pair of arguments of one call, so that "without calling
  \<open>comparePatterns\<close>" is a statement about the log.
\<close>

type_synonym call_log = "(TypingPattern \<times> TypingPattern) list"

definition MINIMUM_SAMPLE_SIZE :: nat where
  "MINIMUM_SAMPLE_SIZE = 75"

definition HIGH_CONFIDENCE_THRESHOLD :: jsnum where
  "HIGH_CONFIDENCE_THRESHOLD = Num (85 / 100)"

definition POSSIBLE_MATCH_THRESHOLD :: jsnum where
  "POSSIBLE_MATCH_THRESHOLD = Num (75 / 100)"

definition NO_MATCH_THRESHOLD :: jsnum where
  "NO_MATCH_THRESHOLD = Num (6 / 10)"

subsection \<open>\<open>POST /api/predict\<close>\<close>

text \<open>
  The response: status 400 with an error message, or the JSON with \<open>match\<close> and
  \<open>confidence\<close>. The body's \<open>events\<close> is \<open>None\<close> when it is not an array.
\<close>

datatype Response = BadRequest string | Prediction "string option" jsnum

record BestMatch =
  userId :: string
  similarity :: jsnum

definition api_compare ::
  "TypingPattern \<Rightarrow> BestMatch \<times> call_log \<Rightarrow> string \<times> TypingPattern \<Rightarrow> BestMatch \<times> call_log" where
  "api_compare currentPattern acc entry =
     (let bestMatch = fst acc;
          sim = comparePatterns currentPattern (snd entry);
          calls = snd acc @ [(currentPattern, snd entry)]
      in if js_gt sim (similarity bestMatch)
         then (\<lparr> userId = fst entry, similarity = sim \<rparr>, calls)
         else (bestMatch, calls))"

definition api_predict ::
  "(string \<times> TypingPattern) list \<Rightarrow> KeyEvent list option \<Rightarrow> Response \<times> call_log" where
  "api_predict profiles body =
     (case body of
        None \<Rightarrow> (BadRequest ''Invalid or insufficient typing data'', [])
      | Some events \<Rightarrow>
          if length events < 75
          then (BadRequest ''Invalid or insufficient typing data'', [])
          else (let currentPattern = calculateTypingPattern events;
                    (bestMatch, calls) =
                      foldl (api_compare currentPattern)
                            (\<lparr> userId = [], similarity = Num 0 \<rparr>, []) profiles
                in (Prediction (if js_gt (similarity bestMatch) (Num (7 / 10))
                                then Some (userId bestMatch) else None)
                               (similarity bestMatch),
                    calls)))"

subsection \<open>\<open>predictUser\<close> of the application\<close>

record Stats =
  stats_averageSpeed :: jsnum
  accuracy :: jsnum
  totalSamples :: jsnum
  lastUpdated :: jsnum
  consistencyScore :: jsnum
  successfulMatches :: jsnum
  totalAttempts :: jsnum

datatype Role = Admin | User

record UserProfile =
  profile_id :: string
  firstName :: string
  lastName :: string
  samples :: "KeyEvent list list"
  pattern :: TypingPattern
  createdAt :: jsnum
  role :: Role
  stats :: Stats

record PredictionHistory =
  history_timestamp :: jsnum
  predictedUser :: string
  confidence :: jsnum
  correct :: bool

text \<open>What \<open>setPredictionResult\<close> is given: one of the four cards.\<close>

datatype PredictionResult =
    NeedMoreKeystrokes nat
  | MatchFound string jsnum
  | PossibleMatch string jsnum
  | NoMatchFound jsnum

record AppState =
  textArea :: string
  keyEvents :: "KeyEvent list"
  startTime :: "jsnum option"
  lastKeyTime :: "jsnum option"
  lastKeystrokeTime :: "jsnum option"
  typingSpeed :: jsnum
  userProfiles :: "UserProfile list"
  predictionResult :: "PredictionResult option"
  predictionHistory :: "PredictionHistory list"
  isGenerating :: bool

definition resetState :: "AppState \<Rightarrow> AppState" where
  "resetState st =
     st\<lparr> textArea := [], keyEvents := [], startTime := None, lastKeyTime := None,
         typingSpeed := Num 0, lastKeystrokeTime := None \<rparr>"

definition ui_compare ::
  "TypingPattern \<Rightarrow> (UserProfile \<times> jsnum) option \<times> call_log \<Rightarrow> UserProfile \<Rightarrow>
   (UserProfile \<times> jsnum) option \<times> call_log" where
  "ui_compare currentPattern acc profile =
     (let bestMatch = fst acc;
          sim = comparePatterns currentPattern (pattern profile);
          calls = snd acc @ [(currentPattern, pattern profile)]
      in (case bestMatch of
            None \<Rightarrow> (Some (profile, sim), calls)
          | Some best \<Rightarrow>
              if js_gt sim (snd best) then (Some (profile, sim), calls)
              else (bestMatch, calls)))"

text \<open>Lines 170 to 195: the update of the matched profile.\<close>

definition update_profile ::
  "jsnum \<Rightarrow> KeyEvent list \<Rightarrow> TypingPattern \<Rightarrow> string \<Rightarrow> bool \<Rightarrow> UserProfile \<Rightarrow> UserProfile" where
  "update_profile now events currentPattern best_id isHighConfidence profile =
     (if profile_id profile = best_id
      then (let st1 = (stats profile)\<lparr>totalAttempts := js_add (totalAttempts (stats profile)) (Num 1)\<rparr>
            in if isHighConfidence
               then (let st2 = st1\<lparr>successfulMatches := js_add (successfulMatches st1) (Num 1)\<rparr>;
                         newSamples = js_slice_from (samples profile @ [events]) (- 5);
                         updatedPattern = calculateTypingPattern events
                     in profile
                        \<lparr> samples := newSamples,
                          pattern := updatedPattern,
                          stats := st2
                            \<lparr> stats_averageSpeed :=
                                js_div (js_add (js_mul (stats_averageSpeed st2) (totalSamples st2))
                                               (averageSpeed currentPattern))
                                       (js_add (totalSamples st2) (Num 1)),
                              accuracy :=
                                js_div (js_add (js_mul (accuracy st2) (totalSamples st2))
                                               (js_sub (Num 1) (errorRate currentPattern)))
                                       (js_add (totalSamples st2) (Num 1)),
                              totalSamples := js_add (totalSamples st2) (Num 1),
                              lastUpdated := now,
                              consistencyScore :=
                                js_div (js_add (js_mul (consistencyScore st2) (totalSamples st2))
                                               (js_sub (Num 1) (rhythmConsistency currentPattern)))
                                       (js_add (totalSamples st2) (Num 1)) \<rparr> \<rparr>)
               else profile\<lparr>stats := st1\<rparr>)
      else profile)"

text \<open>Lines 163 to 321: what is done with the best match.\<close>

definition show_match ::
  "jsnum \<Rightarrow> KeyEvent list \<Rightarrow> TypingPattern \<Rightarrow> UserProfile \<Rightarrow> jsnum \<Rightarrow> AppState \<Rightarrow> AppState" where
  "show_match now events currentPattern best conf st =
     (let result = firstName best @ '' '' @ lastName best;
          isHighConfidence = js_ge conf HIGH_CONFIDENCE_THRESHOLD;
          isPossibleMatch =
            (js_ge conf POSSIBLE_MATCH_THRESHOLD \<and> js_lt conf HIGH_CONFIDENCE_THRESHOLD);
          st1 = st\<lparr>userProfiles :=
                    map (update_profile now events currentPattern (profile_id best)
                           isHighConfidence) (userProfiles st)\<rparr>;
          st2 = st1\<lparr>predictionResult :=
                     Some (if isHighConfidence then MatchFound result conf
                           else if isPossibleMatch then PossibleMatch result conf
                           else NoMatchFound conf)\<rparr>
      in st2\<lparr>predictionHistory :=
               predictionHistory st2 @
                 [\<lparr> history_timestamp = now, predictedUser = result, confidence = conf,
                    correct = isHighConfidence \<rparr>]\<rparr>)"

text \<open>
  \<open>predictUser\<close>, with \<open>now\<close> the reading of the clock. The state setters are applied
  in the order of the calls; the pause of 1500 ms has no effect on the state.
\<close>

definition predictUser :: "jsnum \<Rightarrow> AppState \<Rightarrow> AppState \<times> call_log" where
  "predictUser now st =
     (if length (keyEvents st) < MINIMUM_SAMPLE_SIZE
      then (st\<lparr>predictionResult := Some (NeedMoreKeystrokes MINIMUM_SAMPLE_SIZE)\<rparr>, [])
      else (let st1 = st\<lparr>isGenerating := True\<rparr>;
                currentPattern = calculateTypingPattern (keyEvents st);
                (bestMatch, calls) =
                  foldl (ui_compare currentPattern) (None, []) (userProfiles st);
                st2 = (case bestMatch of
                         None \<Rightarrow> st1
                       | Some best \<Rightarrow>
                           show_match now (keyEvents st) currentPattern (fst best) (snd best) st1)
            in (resetState (st2\<lparr>isGenerating := False\<rparr>), calls)))"

section \<open>Predicates and sample inputs of the statements\<close>

text \<open>The intervals of an event sequence: line 47.\<close>

definition intervals_of :: "KeyEvent list \<Rightarrow> jsnum list" where
  "intervals_of events = map timeSinceLast (tl events)"

text \<open>The single-character keys pressed, in order.\<close>

definition single_chars :: "KeyEvent list \<Rightarrow> string list" where
  "single_chars events = filter (\<lambda>k. length k = 1) (map key events)"

text \<open>
  Additive smoothing with parameter \<open>0.1\<close> of the raw count of a key, over all
  single-character presses and the number of distinct keys among them.
\<close>

definition smoothed :: "KeyEvent list \<Rightarrow> string \<Rightarrow> jsnum" where
  "smoothed events k =
     Num ((real (count_list (single_chars events) k) + 1 / 10) /
          (real (length (single_chars events)) +
           1 / 10 * real (card (set (single_chars events)))))"




text \<open>A cell other than an array of events.\<close>

fun no_events :: "cell \<Rightarrow> bool" where
  "no_events (EventArray es) = False"
| "no_events c = True"

text \<open>A key press with no modifier held, \<open>t\<close> milliseconds after the previous one.\<close>

definition plain_key :: "string \<Rightarrow> real \<Rightarrow> KeyEvent" where
  "plain_key k t =
     \<lparr> key = k, code = [], timestamp = Num 0, timeSinceLast = Num t,
       modifiers = \<lparr> ctrl = False, alt = False, shift = False, meta = False \<rparr> \<rparr>"

text \<open>Eleven presses of an arrow key, \<open>t\<close> milliseconds apart.\<close>

definition arrows :: "real \<Rightarrow> KeyEvent list" where
  "arrows t =
     (let e = plain_key ''ArrowLeft'' t in [e, e, e, e, e, e, e, e, e, e, e])"

text \<open>Seventy-five presses of an arrow key, \<open>100\<close> ms apart.\<close>

definition arrow_session :: "KeyEvent list" where
  "arrow_session = replicate 75 (plain_key ''ArrowLeft'' 100)"

text \<open>Three presses: \<open>a\<close>, \<open>b\<close>, \<open>a\<close>.\<close>

definition aba :: "KeyEvent list" where
  "aba = [plain_key ''a'' 0, plain_key ''b'' 120, plain_key ''a'' 90]"

text \<open>
  One hundred presses typing \<open>the quick brown fox\<close> five times, a space after each,
  uniformly \<open>100\<close> ms apart and without a backspace.
\<close>

definition fox :: string where
  "fox = ''the quick brown fox ''"

definition fox_events :: "KeyEvent list" where
  "fox_events =
     plain_key ''t'' 0 # map (\<lambda>c. plain_key [c] 100) (tl (fox @ fox @ fox @ fox @ fox))"

text \<open>An application state with three keystrokes typed and one enrolled profile.\<close>

definition enrolled :: UserProfile where
  "enrolled =
     \<lparr> profile_id = ''1'', firstName = ''Ada'', lastName = ''Lovelace'',
       samples = [fox_events], pattern = calculateTypingPattern fox_events,
       createdAt = Num 0, role = User,
       stats = \<lparr> stats_averageSpeed = Num 100, accuracy = Num 1, totalSamples = Num 1,
                 lastUpdated = Num 0, consistencyScore = Num 1, successfulMatches = Num 0,
                 totalAttempts = Num 0 \<rparr> \<rparr>"

definition short_session :: AppState where
  "short_session =
     \<lparr> textArea = ''aba'', keyEvents = aba, startTime = Some (Num 0),
       lastKeyTime = Some (Num 210), lastKeystrokeTime = Some (Num 210),
       typingSpeed = Num 600, userProfiles = [enrolled], predictionResult = None,
       predictionHistory = [], isGenerating = False \<rparr>"

section \<open>Properties of calculateTypingPattern\<close>

lemmas js_defs = js_slice_def js_slice_from_def js_index_def js_sum_def js_sub_def js_gt_def
  js_min_def js_max_def js_max3_def floor_tenth_def floor_fifth_def floor_quarter_def
  floor_three_quarters_def

lemmas step_defs = scan_events_def step_def step_modifier_def step_char_def
  step_backspace_def scan_init_def any_modifier_def count_key_def

lemma js_slice_from_1: "js_slice_from xs 1 = tl xs"
  by (cases xs) (simp_all add: js_slice_from_def js_slice_def)

lemma calc_fields:
  assumes "2 \<le> length es"
  shows "averageSpeed (calculateTypingPattern es) =
           calc_averageSpeed (js_sort (intervals_of es))"
    and "burstSpeed (calculateTypingPattern es) = calc_burstSpeed (intervals_of es)"
    and "rhythmConsistency (calculateTypingPattern es) =
           calc_rhythmConsistency (intervals_of es)
             (calc_averageSpeed (js_sort (intervals_of es)))"
    and "speedVariability (calculateTypingPattern es) =
           calc_speedVariability (js_sort (intervals_of es))
             (calc_averageSpeed (js_sort (intervals_of es)))"
    and "pauseFrequency (calculateTypingPattern es) =
           calc_pauseFrequency (intervals_of es) (calc_averageSpeed (js_sort (intervals_of es)))"
    and "errorRate (calculateTypingPattern es) =
           calc_errorRate (scan_events es)
             (calc_speedVariability (js_sort (intervals_of es))
                (calc_averageSpeed (js_sort (intervals_of es))))"
    and "keyPressDistribution (calculateTypingPattern es) =
           calc_keyPressDistribution (keyDistribution (scan_events es))"
  using assms
  by (simp_all add: calculateTypingPattern_def Let_def default_pattern_def js_slice_from_1
        intervals_of_def)

text \<open>
  C2. The function is total: it has no failing branch. On fewer than two events it
  returns the initial pattern, in which every number is zero and every container is
  empty.
\<close>

theorem calculateTypingPattern_short:
  "length events < 2 \<Longrightarrow>
   calculateTypingPattern events =
     \<lparr> averageSpeed = Num 0, keyPressDistribution = [], modifierUsage = [],
       timingPatterns = [], specialKeyFrequency = [], backspaceFrequency = Num 0,
       averageWordLength = Num 0, rhythmConsistency = Num 0, modifierFrequency = Num 0,
       capitalFrequency = Num 0, punctuationFrequency = Num 0, burstSpeed = Num 0,
       pauseFrequency = Num 0, speedVariability = Num 0, keyPressForce = Num 0,
       errorRate = Num 0 \<rparr>"
  by (simp add: calculateTypingPattern_def default_pattern_def)

theorem calculateTypingPattern_short_witness:
  "length [plain_key ''a'' 0] < 2 \<and>
   calculateTypingPattern [plain_key ''a'' 0] =
     \<lparr> averageSpeed = Num 0, keyPressDistribution = [], modifierUsage = [],
       timingPatterns = [], specialKeyFrequency = [], backspaceFrequency = Num 0,
       averageWordLength = Num 0, rhythmConsistency = Num 0, modifierFrequency = Num 0,
       capitalFrequency = Num 0, punctuationFrequency = Num 0, burstSpeed = Num 0,
       pauseFrequency = Num 0, speedVariability = Num 0, keyPressForce = Num 0,
       errorRate = Num 0 \<rparr>"
  using calculateTypingPattern_short [of "[plain_key ''a'' 0]"] by simp






text \<open>
  C4. With one to nine intervals the trim amount is \<open>0\<close> and \<open>slice(0, -0)\<close> is the
  empty array, so the mean is \<open>0 / 0\<close>: two events already give \<open>NaN\<close>.
\<close>

theorem averageSpeed_two_events_NaN:
  "trimmedIntervals (js_sort (intervals_of [plain_key ''a'' 0, plain_key ''b'' 100])) = [] \<and>
   averageSpeed (calculateTypingPattern [plain_key ''a'' 0, plain_key ''b'' 100]) = NaN"
  by (simp add: calc_fields intervals_of_def plain_key_def calc_averageSpeed_def
        trimmedIntervals_def js_defs)

text \<open>
  C7. With fewer intervals than the window size the loop body never runs and
  \<open>burstSpeed\<close> keeps the initial \<open>Infinity\<close>.
\<close>

theorem burstSpeed_two_events_infinite:
  "burstSpeed (calculateTypingPattern [plain_key ''a'' 0, plain_key ''b'' 100]) = PInf \<and>
   \<not> is_finite (burstSpeed (calculateTypingPattern [plain_key ''a'' 0, plain_key ''b'' 100]))"
  by (simp add: calc_fields intervals_of_def plain_key_def calc_burstSpeed_def
        windowSize_def js_defs)

text \<open>
  C3. Neither \<open>rhythmConsistency\<close> nor \<open>errorRate\<close> is guarded. Eleven arrow keys
  pressed \<open>0\<close> ms apart have mean interval \<open>0\<close> and \<open>rhythmConsistency\<close> \<open>NaN\<close>;
  eleven arrow keys \<open>100\<close> ms apart (no single character, no backspace) have
  \<open>errorRate\<close> \<open>NaN\<close>.
\<close>

theorem unguarded_ratios_NaN:
  "averageSpeed (calculateTypingPattern (arrows 0)) = Num 0 \<and>
   rhythmConsistency (calculateTypingPattern (arrows 0)) = NaN \<and>
   totalChars (scan_events (arrows 100)) = 0 \<and>
   backspaceCount (scan_events (arrows 100)) = 0 \<and>
   errorRate (calculateTypingPattern (arrows 100)) = NaN"
  by (simp add: calc_fields intervals_of_def arrows_def plain_key_def calc_averageSpeed_def
        trimmedIntervals_def js_defs calc_rhythmConsistency_def calc_variance_def
        calc_errorRate_def step_defs Let_def)

subsection \<open>The counters of the pass over the events\<close>

lemma step_counts:
  "modifierCount (step s e) \<le> Suc (modifierCount s)"
  "capitalCount s \<le> totalChars s \<Longrightarrow> capitalCount (step s e) \<le> totalChars (step s e)"
  "punctuationCount s \<le> totalChars s \<Longrightarrow>
   punctuationCount (step s e) \<le> totalChars (step s e)"
  by (simp_all add: step_def step_modifier_def step_char_def step_backspace_def Let_def)

lemma foldl_step_modifierCount:
  "modifierCount (foldl step s es) \<le> modifierCount s + length es"
proof (induction es arbitrary: s)
  case Nil
  show ?case by simp
next
  case (Cons e es)
  have "modifierCount (foldl step (step s e) es) \<le> modifierCount (step s e) + length es"
    by (rule Cons.IH)
  also have "\<dots> \<le> Suc (modifierCount s) + length es"
    using step_counts(1) [of s e] by simp
  finally show ?case by simp
qed

lemma foldl_step_capitalCount:
  "capitalCount s \<le> totalChars s \<Longrightarrow>
   capitalCount (foldl step s es) \<le> totalChars (foldl step s es)"
  by (induction es arbitrary: s) (simp_all add: step_counts)

lemma foldl_step_punctuationCount:
  "punctuationCount s \<le> totalChars s \<Longrightarrow>
   punctuationCount (foldl step s es) \<le> totalChars (foldl step s es)"
  by (induction es arbitrary: s) (simp_all add: step_counts)

lemma scan_events_counts:
  "modifierCount (scan_events es) \<le> length es"
  "capitalCount (scan_events es) \<le> totalChars (scan_events es)"
  "punctuationCount (scan_events es) \<le> totalChars (scan_events es)"
  using foldl_step_modifierCount [of scan_init es]
    foldl_step_capitalCount [of scan_init es] foldl_step_punctuationCount [of scan_init es]
  by (simp_all add: scan_events_def scan_init_def)

lemma frequencies_in_unit:
  "in_unit (modifierFrequency (calculateTypingPattern events)) \<and>
   in_unit (capitalFrequency (calculateTypingPattern events)) \<and>
   in_unit (punctuationFrequency (calculateTypingPattern events))"
proof (cases "length events < 2")
  case True
  then show ?thesis by (simp add: calculateTypingPattern_def default_pattern_def)
next
  case False
  then have pos: "0 < length events" by (cases events) simp_all
  show ?thesis
    using False pos scan_events_counts [of events]
    by (simp add: calculateTypingPattern_def default_pattern_def Let_def)
qed

text \<open>
  C10. The modifier, capital and punctuation frequencies are in \<open>[0, 1]\<close> on every
  input: each counts events that its denominator counts too. The backspace frequency
  divides the backspaces by the single-character presses only, and exceeds \<open>1\<close> for one
  character followed by two backspaces.
\<close>

theorem frequencies_in_unit_but_backspace:
  "(\<forall>events.
      in_unit (modifierFrequency (calculateTypingPattern events)) \<and>
      in_unit (capitalFrequency (calculateTypingPattern events)) \<and>
      in_unit (punctuationFrequency (calculateTypingPattern events))) \<and>
   (\<exists>events. js_gt (backspaceFrequency (calculateTypingPattern events)) (Num 1))"
proof
  show "\<forall>events.
      in_unit (modifierFrequency (calculateTypingPattern events)) \<and>
      in_unit (capitalFrequency (calculateTypingPattern events)) \<and>
      in_unit (punctuationFrequency (calculateTypingPattern events))"
    using frequencies_in_unit by blast
  have "backspaceFrequency (calculateTypingPattern
          [plain_key ''a'' 0, plain_key ''Backspace'' 100, plain_key ''Backspace'' 100]) = Num 2"
    by (simp add: calculateTypingPattern_def default_pattern_def Let_def step_defs plain_key_def)
  then have "js_gt (backspaceFrequency (calculateTypingPattern
          [plain_key ''a'' 0, plain_key ''Backspace'' 100, plain_key ''Backspace'' 100])) (Num 1)"
    by (simp add: js_gt_def)
  then show "\<exists>events. js_gt (backspaceFrequency (calculateTypingPattern events)) (Num 1)"
    by blast
qed

subsection \<open>The key distribution\<close>

lemma keyDistribution_step:
  "keyDistribution (step s e) =
     (if length (key e) = 1 then count_key (keyDistribution s) (key e) else keyDistribution s)"
  by (simp add: step_def step_modifier_def step_char_def step_backspace_def Let_def)

lemma keyDistribution_foldl_step:
  "keyDistribution (foldl step s es) = foldl count_key (keyDistribution s) (single_chars es)"
  by (induction es arbitrary: s) (simp_all add: single_chars_def keyDistribution_step)

lemma map_of_obj_set: "map_of (obj_set d k v) = (map_of d)(k \<mapsto> v)"
  by (induction d) auto

lemma keys_obj_set_in: "k \<in> fst ` set d \<Longrightarrow> map fst (obj_set d k v) = map fst d"
proof (induction d)
  case Nil
  then show ?case by simp
next
  case (Cons a d)
  show ?case
  proof (cases "fst a = k")
    case True
    then show ?thesis by (cases a) simp
  next
    case False
    with Cons.prems have "k \<in> fst ` set d" by auto
    with Cons.IH False show ?thesis by (cases a) simp
  qed
qed

lemma keys_obj_set_out: "k \<notin> fst ` set d \<Longrightarrow> map fst (obj_set d k v) = map fst d @ [k]"
  by (induction d) auto

lemma keys_obj_set:
  "map fst (obj_set d k v) = (if k \<in> fst ` set d then map fst d else map fst d @ [k])"
  by (simp add: keys_obj_set_in keys_obj_set_out)

lemma sum_count_key: "sum_list (map snd (count_key d k)) = Suc (sum_list (map snd d))"
  unfolding count_key_def by (induction d) auto

lemma distinct_count_key: "distinct (map fst d) \<Longrightarrow> distinct (map fst (count_key d k))"
  by (simp add: count_key_def keys_obj_set)

lemma set_keys_count_key: "fst ` set (count_key d k) = insert k (fst ` set d)"
proof -
  have "set (map fst (count_key d k)) = insert k (fst ` set d)"
    unfolding count_key_def keys_obj_set by auto
  then show ?thesis by simp
qed

lemma map_of_count_key:
  "map_of (count_key d k) =
     (map_of d)(k \<mapsto> Suc (case map_of d k of None \<Rightarrow> 0 | Some c \<Rightarrow> c))"
  by (simp add: count_key_def map_of_obj_set)

lemma foldl_count_key_props:
  "distinct (map fst d) \<Longrightarrow> distinct (map fst (foldl count_key d ks))"
  "fst ` set (foldl count_key d ks) = fst ` set d \<union> set ks"
  "sum_list (map snd (foldl count_key d ks)) = sum_list (map snd d) + length ks"
  by (induction ks arbitrary: d)
     (simp_all add: distinct_count_key set_keys_count_key sum_count_key)

lemma map_of_foldl_count_key:
  "map_of (foldl count_key d ks) k =
     (if k \<in> set ks \<or> k \<in> dom (map_of d)
      then Some (count_list ks k + (case map_of d k of None \<Rightarrow> 0 | Some c \<Rightarrow> c))
      else None)"
proof (induction ks arbitrary: d)
  case Nil
  show ?case by (auto split: option.splits)
next
  case (Cons a ks)
  show ?case
    by (simp add: Cons.IH map_of_count_key) (auto split: option.splits)
qed

lemma kd_scan_events:
  "distinct (map fst (keyDistribution (scan_events es)))"
  "fst ` set (keyDistribution (scan_events es)) = set (single_chars es)"
  "sum_list (map snd (keyDistribution (scan_events es))) = length (single_chars es)"
  "map_of (keyDistribution (scan_events es)) k =
     (if k \<in> set (single_chars es) then Some (count_list (single_chars es) k) else None)"
  by (simp_all add: scan_events_def keyDistribution_foldl_step scan_init_def
        foldl_count_key_props map_of_foldl_count_key)

lemma length_kd_scan_events:
  "length (keyDistribution (scan_events es)) = card (set (single_chars es))"
proof -
  have "card (set (single_chars es)) = card (set (map fst (keyDistribution (scan_events es))))"
    by (simp add: kd_scan_events(2))
  also have "\<dots> = length (map fst (keyDistribution (scan_events es)))"
    by (rule distinct_card) (rule kd_scan_events(1))
  finally show ?thesis by simp
qed

lemma foldl_js_add_Num: "foldl js_add (Num a) (map Num xs) = Num (a + sum_list xs)"
  by (induction xs arbitrary: a) (simp_all add: add.assoc)

lemma js_sum_Num: "js_sum (map Num xs) = Num (sum_list xs)"
  by (simp add: js_sum_def foldl_js_add_Num)

lemma real_sum_list: "(\<Sum>x\<leftarrow>xs. real (f x)) = real (sum_list (map f xs))"
  by (induction xs) simp_all

lemma sum_list_div: "(\<Sum>x\<leftarrow>xs. f x / (d::real)) = sum_list (map f xs) / d"
  by (induction xs) (simp_all add: add_divide_distrib)

lemma calc_keyPressDistribution_eq:
  assumes "kd \<noteq> []"
  shows "calc_keyPressDistribution kd =
           map (\<lambda>(k, c). (k, Num ((real c + 1 / 10) /
                  (real (sum_list (map snd kd)) + 1 / 10 * real (length kd))))) kd"
proof -
  have "map (\<lambda>c. Num (real c)) (map snd kd) = map Num (map real (map snd kd))" by simp
  then have tot: "js_sum (map (\<lambda>c. Num (real c)) (obj_values kd)) =
                  Num (real (sum_list (map snd kd)))"
    by (simp only: obj_values_def js_sum_Num) (simp add: comp_def real_sum_list)
  have "0 < length kd" using assms by simp
  then have "real (sum_list (map snd kd)) + 1 / 10 * real (length kd) > 0"
    by (simp add: add_nonneg_pos)
  then have nz: "real (sum_list (map snd kd)) + real (length kd) / 10 \<noteq> 0" by simp
  show ?thesis
    unfolding calc_keyPressDistribution_def tot Let_def obj_keys_def
    using nz by (simp add: case_prod_beta)
qed

lemma sum_smoothed:
  fixes xs :: "nat list"
  assumes "xs \<noteq> []"
  shows "(\<Sum>c\<leftarrow>xs. (real c + 1 / 10) / (real (sum_list xs) + 1 / 10 * real (length xs))) = 1"
proof -
  let ?D = "real (sum_list xs) + 1 / 10 * real (length xs)"
  have "0 < length xs" using assms by simp
  then have pos: "?D > 0" by (simp add: add_nonneg_pos)
  have lin: "(\<Sum>c\<leftarrow>ys. real c + 1 / 10) = real (sum_list ys) + 1 / 10 * real (length ys)"
    for ys :: "nat list"
    by (induction ys) (simp_all add: algebra_simps)
  have "(\<Sum>c\<leftarrow>xs. (real c + 1 / 10) / ?D) = (\<Sum>c\<leftarrow>xs. real c + 1 / 10) / ?D"
    by (rule sum_list_div)
  also have "\<dots> = ?D / ?D" by (simp only: lin)
  also have "\<dots> = 1" using pos by simp
  finally show ?thesis .
qed


lemma map_of_map_value:
  "map_of (map (\<lambda>(k, c). (k, f c)) kd) k = map_option f (map_of kd k)"
  by (induction kd) auto

text \<open>
  C5, amended. For every event sequence with at least two events, one of them a
  single-character key: the keys of \<open>keyPressDistribution\<close> are the distinct
  single-character keys pressed, the value of each is its raw count smoothed
  additively with parameter \<open>0.1\<close>, and the values sum to \<open>1\<close> (in exact arithmetic).
\<close>

theorem keyPressDistribution_smoothed:
  assumes "2 \<le> length events" and "single_chars events \<noteq> []"
  shows "distinct (obj_keys (keyPressDistribution (calculateTypingPattern events))) \<and>
         set (obj_keys (keyPressDistribution (calculateTypingPattern events))) =
           set (single_chars events) \<and>
         map_of (keyPressDistribution (calculateTypingPattern events)) =
           (\<lambda>k. if k \<in> set (single_chars events) then Some (smoothed events k) else None) \<and>
         js_sum (obj_values (keyPressDistribution (calculateTypingPattern events))) = Num 1"
proof -
  let ?kd = "keyDistribution (scan_events events)"
  let ?f = "\<lambda>c. Num ((real c + 1 / 10) /
                 (real (sum_list (map snd ?kd)) + 1 / 10 * real (length ?kd)))"
  have ne: "?kd \<noteq> []"
    using assms(2) kd_scan_events(2) [of events] by auto
  have D: "keyPressDistribution (calculateTypingPattern events) =
             map (\<lambda>(k, c). (k, ?f c)) ?kd"
    using assms(1) ne by (simp add: calc_fields calc_keyPressDistribution_eq)
  have keys: "map fst (map (\<lambda>(k, c). (k, ?f c)) ?kd) = map fst ?kd"
    by (simp add: case_prod_beta comp_def)
  have vals: "map snd (map (\<lambda>(k, c). (k, ?f c)) ?kd) = map Num (map (\<lambda>c. (real c + 1 / 10) /
                 (real (sum_list (map snd ?kd)) + 1 / 10 * real (length ?kd))) (map snd ?kd))"
    by (simp add: case_prod_beta comp_def)
  have c1: "distinct (obj_keys (keyPressDistribution (calculateTypingPattern events)))"
    unfolding D obj_keys_def keys by (rule kd_scan_events(1))
  have c2: "set (obj_keys (keyPressDistribution (calculateTypingPattern events))) =
           set (single_chars events)"
    unfolding D obj_keys_def keys using kd_scan_events(2) [of events] by simp
  have c3: "map_of (keyPressDistribution (calculateTypingPattern events)) =
           (\<lambda>k. if k \<in> set (single_chars events) then Some (smoothed events k) else None)"
  proof
    fix k
    show "map_of (keyPressDistribution (calculateTypingPattern events)) k =
           (if k \<in> set (single_chars events) then Some (smoothed events k) else None)"
      unfolding D map_of_map_value kd_scan_events(4)
      by (simp add: smoothed_def kd_scan_events(3) length_kd_scan_events)
  qed
  have ne': "map snd ?kd \<noteq> []" using ne by simp
  have c4: "js_sum (obj_values (keyPressDistribution (calculateTypingPattern events))) = Num 1"
    unfolding D obj_values_def vals js_sum_Num
    using sum_smoothed [OF ne'] by simp
  from c1 c2 c3 c4 show ?thesis by blast
qed

theorem keyPressDistribution_smoothed_witness:
  "2 \<le> length aba \<and> single_chars aba \<noteq> [] \<and>
   set (obj_keys (keyPressDistribution (calculateTypingPattern aba))) = {''a'', ''b''} \<and>
   map_of (keyPressDistribution (calculateTypingPattern aba)) ''a'' = Some (Num (21 / 32)) \<and>
   js_sum (obj_values (keyPressDistribution (calculateTypingPattern aba))) = Num 1"
  using keyPressDistribution_smoothed [of aba]
  by (simp add: aba_def single_chars_def plain_key_def smoothed_def insert_commute)

text \<open>
  C5 as stated fails on a sequence of one event: the early return of line 44 leaves
  the distribution empty, and its values sum to \<open>0\<close>.
\<close>

theorem keyPressDistribution_single_event_empty:
  "single_chars [plain_key ''a'' 0] \<noteq> [] \<and>
   keyPressDistribution (calculateTypingPattern [plain_key ''a'' 0]) = [] \<and>
   js_sum (obj_values (keyPressDistribution (calculateTypingPattern [plain_key ''a'' 0])))
     \<noteq> Num 1"
  by (simp add: calculateTypingPattern_def default_pattern_def single_chars_def plain_key_def
        obj_values_def js_sum_def)

section \<open>Properties of comparePatterns\<close>

subsection \<open>A pattern compared with itself\<close>













subsection \<open>The patterns that calculateTypingPattern returns\<close>


















lemma totalChars_step:
  "totalChars (step s e) = (if length (key e) = 1 then Suc (totalChars s) else totalChars s)"
  "backspaceCount (step s e) =
     (if key e = ''Backspace'' then Suc (backspaceCount s) else backspaceCount s)"
  by (simp_all add: step_def step_modifier_def step_char_def step_backspace_def Let_def)

lemma totalChars_foldl:
  "totalChars (foldl step s es) = totalChars s + length (filter (\<lambda>e. length (key e) = 1) es)"
  "backspaceCount (foldl step s es) =
     backspaceCount s + length (filter (\<lambda>e. key e = ''Backspace'') es)"
  by (induction es arbitrary: s) (simp_all add: totalChars_step)

lemma totalChars_scan_events:
  "totalChars (scan_events es) = length (filter (\<lambda>e. length (key e) = 1) es)"
  "backspaceCount (scan_events es) = length (filter (\<lambda>e. key e = ''Backspace'') es)"
  by (simp_all add: scan_events_def totalChars_foldl scan_init_def)






subsection \<open>The sample of one hundred events\<close>







subsection \<open>Scores outside the unit interval\<close>

lemma js_mul_NaN: "js_mul x NaN = NaN"
  by (cases x) simp_all

lemma comparePatterns_errorRate_NaN:
  "errorRate p = NaN \<Longrightarrow> comparePatterns p q = NaN"
  by (simp add: comparePatterns_def confidenceMultiplier_def js_sub_def js_min_def js_mul_NaN)

lemma arrow_session_errorRate: "errorRate (calculateTypingPattern arrow_session) = NaN"
proof -
  have two: "2 \<le> length arrow_session" by (simp add: arrow_session_def)
  have "totalChars (scan_events arrow_session) = 0"
    and "backspaceCount (scan_events arrow_session) = 0"
    by (simp_all add: totalChars_scan_events arrow_session_def plain_key_def)
  then show ?thesis by (simp add: calc_fields [OF two] calc_errorRate_def)
qed

text \<open>
  C1. Two patterns of fewer than two events have \<open>averageSpeed\<close> \<open>0\<close>, the speed
  ratio is \<open>0 / 0\<close>, and the score is \<open>NaN\<close>, which is not in \<open>[0, 1]\<close>. The same
  holds past the threshold of 75 events: seventy-five arrow keys have \<open>errorRate\<close>
  \<open>0 / 0\<close>, and their pattern compared with any other scores \<open>NaN\<close>.
\<close>

theorem comparePatterns_NaN:
  "comparePatterns (calculateTypingPattern []) (calculateTypingPattern []) = NaN \<and>
   \<not> in_unit (comparePatterns (calculateTypingPattern []) (calculateTypingPattern [])) \<and>
   length arrow_session = 75 \<and>
   comparePatterns (calculateTypingPattern arrow_session) (calculateTypingPattern fox_events) =
     NaN \<and>
   \<not> in_unit (comparePatterns (calculateTypingPattern arrow_session)
                (calculateTypingPattern fox_events))"
proof -
  have "comparePatterns (calculateTypingPattern []) (calculateTypingPattern []) = NaN"
    by (simp add: calculateTypingPattern_def comparePatterns_def rawSimilarity_def
          speedSimilarity_def default_pattern_def js_defs Let_def)
  moreover have "comparePatterns (calculateTypingPattern arrow_session)
                   (calculateTypingPattern fox_events) = NaN"
    by (rule comparePatterns_errorRate_NaN [OF arrow_session_errorRate])
  moreover have "length arrow_session = 75" by (simp add: arrow_session_def)
  ultimately show ?thesis by simp
qed

section \<open>Properties of the callers\<close>

lemma foldl_api_compare_calls:
  "snd (foldl (api_compare cur) acc ps) = snd acc @ map (\<lambda>entry. (cur, snd entry)) ps"
  by (induction ps arbitrary: acc) (simp_all add: api_compare_def Let_def)

lemma foldl_ui_compare_calls:
  "snd (foldl (ui_compare cur) acc ps) = snd acc @ map (\<lambda>profile. (cur, pattern profile)) ps"
  by (induction ps arbitrary: acc) (simp_all add: ui_compare_def Let_def split: option.splits)

text \<open>From 75 events on, each caller compares with every stored profile.\<close>

lemma api_predict_calls:
  "75 \<le> length events \<Longrightarrow>
   snd (api_predict profiles (Some events)) =
     map (\<lambda>entry. (calculateTypingPattern events, snd entry)) profiles"
  using foldl_api_compare_calls
    [of "calculateTypingPattern events" "(\<lparr> userId = [], similarity = Num 0 \<rparr>, [])" profiles]
  by (simp add: api_predict_def Let_def split_beta)

lemma predictUser_calls:
  "75 \<le> length (keyEvents st) \<Longrightarrow>
   snd (predictUser now st) =
     map (\<lambda>profile. (calculateTypingPattern (keyEvents st), pattern profile)) (userProfiles st)"
  using foldl_ui_compare_calls
    [of "calculateTypingPattern (keyEvents st)" "(None, [])" "userProfiles st"]
  by (simp add: predictUser_def MINIMUM_SAMPLE_SIZE_def Let_def split_beta)

text \<open>
  C8. With fewer than 75 events the endpoint answers 400 with its error message, the
  application shows its message asking for at least 75 keystrokes and changes nothing
  else in its state, and neither calls \<open>comparePatterns\<close>: the log of calls is empty.
\<close>

theorem insufficient_data_short_circuit:
  assumes "length events < 75"
  shows "api_predict profiles (Some events) =
           (BadRequest ''Invalid or insufficient typing data'', []) \<and>
         predictUser now (st\<lparr>keyEvents := events\<rparr>) =
           (st\<lparr>keyEvents := events, predictionResult := Some (NeedMoreKeystrokes 75)\<rparr>, [])"
  using assms by (simp add: api_predict_def predictUser_def MINIMUM_SAMPLE_SIZE_def)

theorem insufficient_data_short_circuit_witness:
  "length aba < 75 \<and>
   api_predict [(''1'', calculateTypingPattern fox_events)] (Some aba) =
     (BadRequest ''Invalid or insufficient typing data'', []) \<and>
   predictUser (Num 0) short_session =
     (short_session\<lparr>predictionResult := Some (NeedMoreKeystrokes 75)\<rparr>, [])"
proof -
  have len: "length aba < 75" by (simp add: aba_def)
  have st: "short_session\<lparr>keyEvents := aba\<rparr> = short_session" by (simp add: short_session_def)
  show ?thesis
    using insufficient_data_short_circuit
      [OF len, of "[(''1'', calculateTypingPattern fox_events)]" "Num 0" short_session]
    by (simp add: st len)
qed

section \<open>The functions over the heap\<close>

subsection \<open>calculateTypingPattern over the heap\<close>

lemma new_pattern_eq:
  "new_pattern h0 =
     (Suc (Suc (Suc (Suc (length h0)))),
      h0 @ [NumObject [], NumObject [], NumArray [], NumObject [],
            PatternObject (pattern_refs (length h0) (Suc (length h0)) (Suc (Suc (length h0)))
                             (Suc (Suc (Suc (length h0)))))])"
  by (simp add: new_pattern_def alloc_def)

lemma events_at_append:
  "list_all no_events cs \<Longrightarrow> events_at (h @ cs) a = events_at h a"
proof (cases "a < length h")
  case True
  then show ?thesis by (simp add: events_at_def nth_append)
next
  case False
  assume all: "list_all no_events cs"
  show ?thesis
  proof (cases "a < length (h @ cs)")
    case True
    with False have "cs ! (a - length h) \<in> set cs" by simp
    with all have "no_events (cs ! (a - length h))" by (simp add: list_all_iff)
    then show ?thesis using False True
      by (cases "cs ! (a - length h)") (simp_all add: events_at_def nth_append)
  next
    case False
    then show ?thesis by (simp add: events_at_def)
  qed
qed

lemma timing_h_eq:
  assumes "p < length h" and "h ! p = PatternObject po"
  shows "timing_h ev p h =
           h[p := PatternObject
                    (po\<lparr> timingPatterns := length h,
                         averageSpeed := calc_averageSpeed (js_sort (intervals_of (events_at h ev))),
                         rhythmConsistency :=
                           calc_rhythmConsistency (intervals_of (events_at h ev))
                             (calc_averageSpeed (js_sort (intervals_of (events_at h ev)))),
                         speedVariability :=
                           calc_speedVariability (js_sort (intervals_of (events_at h ev)))
                             (calc_averageSpeed (js_sort (intervals_of (events_at h ev)))),
                         pauseFrequency :=
                           calc_pauseFrequency (intervals_of (events_at h ev))
                             (calc_averageSpeed (js_sort (intervals_of (events_at h ev)))),
                         burstSpeed := calc_burstSpeed (intervals_of (events_at h ev)) \<rparr>)]
           @ [NumArray (intervals_of (events_at h ev)),
              NumArray (js_sort (intervals_of (events_at h ev)))]"
proof -
  let ?iv = "intervals_of (events_at h ev)"
  let ?si = "js_sort ?iv"
  let ?avg = "calc_averageSpeed ?si"
  define po1 where "po1 = po\<lparr>timingPatterns := length h\<rparr>"
  define po5 where "po5 = po1\<lparr>averageSpeed := ?avg\<rparr>"
  define po6 where "po6 = po5\<lparr>rhythmConsistency := calc_rhythmConsistency ?iv ?avg\<rparr>"
  define po7 where "po7 = po6\<lparr>speedVariability := calc_speedVariability ?si ?avg\<rparr>"
  define po8 where "po8 = po7\<lparr>pauseFrequency := calc_pauseFrequency ?iv ?avg\<rparr>"
  define h1 where "h1 = h @ [NumArray ?iv]"
  define h2 where "h2 = h[p := PatternObject po1] @ [NumArray ?iv]"
  define h3 where "h3 = h[p := PatternObject po1] @ [NumArray ?iv, NumArray ?iv]"
  define hs where "hs = (\<lambda>q. h[p := PatternObject q] @ [NumArray ?iv, NumArray ?si])"
  have s1: "alloc (NumArray (map timeSinceLast (js_slice_from (events_at h ev) 1))) h =
              (length h, h1)"
    by (simp add: alloc_def h1_def js_slice_from_1 intervals_of_def)
  have s2: "update_pattern p (\<lambda>pat. pat\<lparr>timingPatterns := length h\<rparr>) h1 = h2"
    using assms
    by (simp add: update_pattern_def write_cell_def pattern_obj_at_def h1_def h2_def po1_def
          nth_append list_update_append)
  have s3: "alloc (NumArray (nums_at h2 (length h))) h2 = (Suc (length h), h3)"
    by (simp add: alloc_def nums_at_def h2_def h3_def nth_append)
  have s4: "write_cell (Suc (length h)) (NumArray (js_sort (nums_at h3 (Suc (length h))))) h3 =
              hs po1"
    by (simp add: write_cell_def nums_at_def h3_def hs_def nth_append list_update_append)
  have rd: "nums_at (hs q) (length h) = ?iv" "nums_at (hs q) (Suc (length h)) = ?si"
    "pattern_obj_at (hs q) p = q" for q
    using assms(1) by (simp_all add: nums_at_def pattern_obj_at_def hs_def nth_append)
  have up: "update_pattern p f (hs q) = hs (f q)" for f q
  proof -
    have "update_pattern p f (hs q) = write_cell p (PatternObject (f q)) (hs q)"
      by (simp only: update_pattern_def rd)
    then show ?thesis
      using assms(1) by (simp add: write_cell_def hs_def list_update_append)
  qed
  have "timing_h ev p h = hs (po8\<lparr>burstSpeed := calc_burstSpeed ?iv\<rparr>)"
    unfolding timing_h_def Let_def s1 split s2 s3 s4 up rd
    by (simp add: po5_def po6_def po7_def po8_def)
  then show ?thesis
    by (simp add: hs_def po1_def po5_def po6_def po7_def po8_def)
qed


lemma nth_update_if: "j < length xs \<Longrightarrow> xs[i := x] ! j = (if i = j then x else xs ! j)"
  by (cases "i = j") simp_all

lemma write_back_twice:
  "write_back mu wl kd s2 (write_back mu wl kd s1 h) = write_back mu wl kd s2 h"
  by (rule nth_equalityI) (simp_all add: write_back_def write_cell_def nth_update_if)

lemma write_back_nth:
  assumes "mu < length h" "wl < length h" "kd < length h" "mu \<noteq> wl" "mu \<noteq> kd" "wl \<noteq> kd"
  shows "write_back mu wl kd s h ! mu = NumObject (usage s)"
    and "write_back mu wl kd s h ! wl = CountArray (wordLengths s)"
    and "write_back mu wl kd s h ! kd = CountObject (keyDistribution s)"
    and "a \<noteq> mu \<Longrightarrow> a \<noteq> wl \<Longrightarrow> a \<noteq> kd \<Longrightarrow> write_back mu wl kd s h ! a = h ! a"
    and "length (write_back mu wl kd s h) = length h"
  using assms by (simp_all add: write_back_def write_cell_def)

lemma write_back_same:
  assumes "mu < length h" "wl < length h" "kd < length h"
    and "h ! mu = NumObject (usage s)" "h ! wl = CountArray (wordLengths s)"
    and "h ! kd = CountObject (keyDistribution s)"
  shows "write_back mu wl kd s h = h"
  using assms
  by (intro nth_equalityI) (auto simp: write_back_def write_cell_def nth_update_if)

lemma foldl_step_h:
  assumes "p \<noteq> mu" "p \<noteq> wl" "p \<noteq> kd" "mu \<noteq> wl" "mu \<noteq> kd" "wl \<noteq> kd"
    and "modifierUsage po = mu"
  shows "p < length h \<Longrightarrow> mu < length h \<Longrightarrow> wl < length h \<Longrightarrow> kd < length h \<Longrightarrow>
         h ! p = PatternObject po \<Longrightarrow> h ! mu = NumObject (usage s) \<Longrightarrow>
         h ! wl = CountArray (wordLengths s) \<Longrightarrow> h ! kd = CountObject (keyDistribution s) \<Longrightarrow>
         foldl (step_h p wl kd) (s, h) es =
           (foldl step s es, write_back mu wl kd (foldl step s es) h)"
proof (induction es arbitrary: s h)
  case Nil
  then show ?case using write_back_same [of mu h wl kd s] by simp
next
  case (Cons e es)
  let ?s = "step s e"
  let ?h = "write_back mu wl kd ?s h"
  note b = Cons.prems(2-4)
  note d = assms(4-6)
  have rd: "pattern_obj_at h p = po" "num_obj_at h mu = usage s" "counts_at h wl = wordLengths s"
    "count_obj_at h kd = keyDistribution s"
    using Cons.prems
    by (simp_all add: pattern_obj_at_def num_obj_at_def counts_at_def count_obj_at_def)
  have st: "step_h p wl kd (s, h) e = (?s, ?h)"
    by (simp add: step_h_def Let_def rd assms(7))
  have len: "length ?h = length h" by (rule write_back_nth(5) [OF b d])
  have "foldl (step_h p wl kd) (?s, ?h) es =
          (foldl step ?s es, write_back mu wl kd (foldl step ?s es) ?h)"
  proof (rule Cons.IH)
    show "p < length ?h" "mu < length ?h" "wl < length ?h" "kd < length ?h"
      using Cons.prems(1) b by (simp_all add: len)
    show "?h ! p = PatternObject po"
      using write_back_nth(4) [OF b d assms(1-3)] Cons.prems(5) by simp
    show "?h ! mu = NumObject (usage ?s)" "?h ! wl = CountArray (wordLengths ?s)"
      "?h ! kd = CountObject (keyDistribution ?s)"
      using write_back_nth(1-3) [OF b d] by simp_all
  qed
  then show ?case by (simp add: st write_back_twice)
qed

lemma scan_h_eq:
  assumes "p < length h" and "h ! p = PatternObject po" and "modifierUsage po < length h"
    and "modifierUsage po \<noteq> p" and "h ! modifierUsage po = NumObject []"
  shows "scan_h ev p h =
           ((scan_events (events_at h ev), length h, Suc (length h)),
            h[modifierUsage po := NumObject (usage (scan_events (events_at h ev)))] @
              [CountArray (final_wordLengths (scan_events (events_at h ev))),
               CountObject (keyDistribution (scan_events (events_at h ev)))])"
proof -
  let ?mu = "modifierUsage po"
  let ?wl = "length h"
  let ?kd = "Suc (length h)"
  let ?h2 = "h @ [CountArray [], CountObject []]"
  let ?sf = "scan_events (events_at h ev)"
  have ev: "events_at ?h2 ev = events_at h ev" by (rule events_at_append) simp
  have fold: "foldl (step_h p ?wl ?kd) (scan_init, ?h2) (events_at h ev) =
                (?sf, write_back ?mu ?wl ?kd ?sf ?h2)"
    unfolding scan_events_def
    using assms
    by (intro foldl_step_h [where po = po]) (simp_all add: nth_append scan_init_def)
  have wb: "write_back ?mu ?wl ?kd ?sf ?h2 =
              h[?mu := NumObject (usage ?sf)] @
                [CountArray (wordLengths ?sf), CountObject (keyDistribution ?sf)]"
    using assms(3) by (simp add: write_back_def write_cell_def list_update_append)
  have rd: "counts_at (h[?mu := NumObject (usage ?sf)] @
                [CountArray (wordLengths ?sf), CountObject (keyDistribution ?sf)]) ?wl =
            wordLengths ?sf"
    by (simp add: counts_at_def nth_append)
  show ?thesis
    unfolding scan_h_def alloc_def Let_def split
    by (simp add: ev fold wb rd final_wordLengths_def write_cell_def list_update_append)
qed


lemma events_at_update:
  assumes "no_events c" and "b < length h" and "no_events (h ! b)"
  shows "events_at (h[b := c]) a = events_at h a"
proof (cases "a = b")
  case True
  then show ?thesis using assms
    by (cases c; cases "h ! b") (simp_all add: events_at_def)
next
  case False
  then show ?thesis by (simp add: events_at_def)
qed

lemma finish_h_eq:
  assumes "p < length h" and "h ! p = PatternObject po"
    and "wl < length h" and "h ! wl = CountArray w"
    and "kd < length h" and "h ! kd = CountObject d" and "p \<noteq> wl"
  shows "finish_h ev p s wl kd h =
           h[wl := CountArray (if 0 < length w then sort w else w),
             p := PatternObject
                    (po\<lparr> keyPressDistribution := length h,
                         errorRate := calc_errorRate s (speedVariability po),
                         averageWordLength :=
                           (if 0 < length w then calc_averageWordLength (sort w)
                            else averageWordLength po),
                         modifierFrequency :=
                           (if 0 < length (events_at h ev)
                            then js_div (Num (real (modifierCount s)))
                                        (Num (real (length (events_at h ev))))
                            else Num 0),
                         capitalFrequency :=
                           (if 0 < totalChars s
                            then js_div (Num (real (capitalCount s))) (Num (real (totalChars s)))
                            else Num 0),
                         punctuationFrequency :=
                           (if 0 < totalChars s
                            then js_div (Num (real (punctuationCount s))) (Num (real (totalChars s)))
                            else Num 0),
                         backspaceFrequency :=
                           (if 0 < totalChars s
                            then js_div (Num (real (backspaceCount s))) (Num (real (totalChars s)))
                            else Num 0) \<rparr>)]
           @ [NumObject (calc_keyPressDistribution d)]"
proof -
  let ?D = "calc_keyPressDistribution d"
  define F where "F = (\<lambda>q w'. h[wl := CountArray w', p := PatternObject q] @ [NumObject ?D])"
  have hw: "h[wl := CountArray w] = h" using assms(4) by (metis list_update_id)
  have s1: "alloc (NumObject (calc_keyPressDistribution (count_obj_at h kd))) h =
              (length h, h @ [NumObject ?D])"
    using assms(5,6) by (simp add: alloc_def count_obj_at_def)
  have rd: "pattern_obj_at (F q w') p = q" "counts_at (F q w') wl = w'" for q w'
    using assms(1,3,7) by (simp_all add: pattern_obj_at_def counts_at_def F_def nth_append)
  have up: "update_pattern p f (F q w') = F (f q) w'" for f q w'
  proof -
    have "update_pattern p f (F q w') = write_cell p (PatternObject (f q)) (F q w')"
      by (simp only: update_pattern_def rd)
    then show ?thesis
      using assms(1) by (simp add: write_cell_def F_def list_update_append)
  qed
  have wr: "write_cell wl (CountArray w'') (F q w') = F q w''" for q w' w''
    using assms(1,3,7)
    by (simp add: write_cell_def F_def list_update_append list_update_swap [of wl p])
  have ev: "events_at (F q w') ev = events_at h ev" for q w'
  proof -
    have "events_at (F q w') ev = events_at (h[wl := CountArray w', p := PatternObject q]) ev"
      unfolding F_def by (rule events_at_append) simp
    also have "\<dots> = events_at (h[wl := CountArray w']) ev"
      using assms(1,2,7) by (intro events_at_update) simp_all
    also have "\<dots> = events_at h ev"
      using assms(3,4) by (intro events_at_update) simp_all
    finally show ?thesis .
  qed
  have s2: "update_pattern p f (h @ [NumObject ?D]) = F (f po) w" for f
  proof -
    have "h @ [NumObject ?D] = F po w"
      using assms(2) hw by (simp add: F_def) (metis list_update_id)
    then show ?thesis by (simp only: up)
  qed
  have "finish_h ev p s wl kd h =
          F (po\<lparr> keyPressDistribution := length h,
                 errorRate := calc_errorRate s (speedVariability po),
                 averageWordLength :=
                   (if 0 < length w then calc_averageWordLength (sort w)
                    else averageWordLength po),
                 modifierFrequency :=
                   (if 0 < length (events_at h ev)
                    then js_div (Num (real (modifierCount s)))
                                (Num (real (length (events_at h ev))))
                    else Num 0),
                 capitalFrequency :=
                   (if 0 < totalChars s
                    then js_div (Num (real (capitalCount s))) (Num (real (totalChars s)))
                    else Num 0),
                 punctuationFrequency :=
                   (if 0 < totalChars s
                    then js_div (Num (real (punctuationCount s))) (Num (real (totalChars s)))
                    else Num 0),
                 backspaceFrequency :=
                   (if 0 < totalChars s
                    then js_div (Num (real (backspaceCount s))) (Num (real (totalChars s)))
                    else Num 0) \<rparr>)
            (if 0 < length w then sort w else w)"
    unfolding finish_h_def Let_def s1 split s2 up rd wr ev
    by (simp add: up rd wr ev)
  then show ?thesis by (simp add: F_def)
qed


lemma calculateTypingPattern_h_short:
  assumes "length (events_at h0 ev) < 2"
  shows "calculateTypingPattern_h ev h0 =
           (Suc (Suc (Suc (Suc (length h0)))),
            h0 @ [NumObject [], NumObject [], NumArray [], NumObject [],
                  PatternObject (pattern_refs (length h0) (Suc (length h0))
                    (Suc (Suc (length h0))) (Suc (Suc (Suc (length h0)))))])"
proof -
  let ?H1 = "h0 @ [NumObject [], NumObject [], NumArray [], NumObject [],
                  PatternObject (pattern_refs (length h0) (Suc (length h0))
                    (Suc (Suc (length h0))) (Suc (Suc (Suc (length h0)))))]"
  have ev: "events_at ?H1 ev = events_at h0 ev" by (rule events_at_append) simp
  show ?thesis
    unfolding calculateTypingPattern_h_def new_pattern_eq Let_def split ev
    using assms by simp
qed

lemma calculateTypingPattern_h_long:
  assumes "\<not> length (events_at h0 ev) < 2" and "es = events_at h0 ev"
  shows "calculateTypingPattern_h ev h0 =
           (Suc (Suc (Suc (Suc (length h0)))),
            h0 @ [NumObject [], NumObject (usage (scan_events es)), NumArray [], NumObject [],
                  PatternObject
                    ((pattern_refs (length h0) (Suc (length h0)) (Suc (Suc (length h0)))
                       (Suc (Suc (Suc (length h0)))))
                    \<lparr> timingPatterns := length h0 + 5,
                      averageSpeed := calc_averageSpeed (js_sort (intervals_of es)),
                      rhythmConsistency :=
                        calc_rhythmConsistency (intervals_of es)
                          (calc_averageSpeed (js_sort (intervals_of es))),
                      speedVariability :=
                        calc_speedVariability (js_sort (intervals_of es))
                          (calc_averageSpeed (js_sort (intervals_of es))),
                      pauseFrequency :=
                        calc_pauseFrequency (intervals_of es)
                          (calc_averageSpeed (js_sort (intervals_of es))),
                      burstSpeed := calc_burstSpeed (intervals_of es),
                      keyPressDistribution := length h0 + 9,
                      errorRate :=
                        calc_errorRate (scan_events es)
                          (calc_speedVariability (js_sort (intervals_of es))
                             (calc_averageSpeed (js_sort (intervals_of es)))),
                      averageWordLength :=
                        (if 0 < length (final_wordLengths (scan_events es))
                         then calc_averageWordLength (sort (final_wordLengths (scan_events es)))
                         else Num 0),
                      modifierFrequency :=
                        (if 0 < length es
                         then js_div (Num (real (modifierCount (scan_events es))))
                                     (Num (real (length es)))
                         else Num 0),
                      capitalFrequency :=
                        (if 0 < totalChars (scan_events es)
                         then js_div (Num (real (capitalCount (scan_events es))))
                                     (Num (real (totalChars (scan_events es))))
                         else Num 0),
                      punctuationFrequency :=
                        (if 0 < totalChars (scan_events es)
                         then js_div (Num (real (punctuationCount (scan_events es))))
                                     (Num (real (totalChars (scan_events es))))
                         else Num 0),
                      backspaceFrequency :=
                        (if 0 < totalChars (scan_events es)
                         then js_div (Num (real (backspaceCount (scan_events es))))
                                     (Num (real (totalChars (scan_events es))))
                         else Num 0) \<rparr>),
                  NumArray (intervals_of es),
                  NumArray (js_sort (intervals_of es)),
                  CountArray (if 0 < length (final_wordLengths (scan_events es))
                              then sort (final_wordLengths (scan_events es))
                              else final_wordLengths (scan_events es)),
                  CountObject (keyDistribution (scan_events es)),
                  NumObject (calc_keyPressDistribution (keyDistribution (scan_events es)))])"
proof -
  let ?n = "length h0"
  let ?es = "events_at h0 ev"
  let ?p = "Suc (Suc (Suc (Suc ?n)))"
  let ?po1 = "pattern_refs ?n (Suc ?n) (Suc (Suc ?n)) (Suc (Suc (Suc ?n)))"
  let ?H1 = "h0 @ [NumObject [], NumObject [], NumArray [], NumObject [], PatternObject ?po1]"
  have ev1: "events_at ?H1 ev = ?es" by (rule events_at_append) simp
  have p1: "?p < length ?H1" "?H1 ! ?p = PatternObject ?po1" by (simp_all add: nth_append)
  note t = timing_h_eq [OF p1, of ev, unfolded ev1]
  define po2 where "po2 =
     ?po1\<lparr> timingPatterns := length ?H1,
           averageSpeed := calc_averageSpeed (js_sort (intervals_of ?es)),
           rhythmConsistency :=
             calc_rhythmConsistency (intervals_of ?es)
               (calc_averageSpeed (js_sort (intervals_of ?es))),
           speedVariability :=
             calc_speedVariability (js_sort (intervals_of ?es))
               (calc_averageSpeed (js_sort (intervals_of ?es))),
           pauseFrequency :=
             calc_pauseFrequency (intervals_of ?es)
               (calc_averageSpeed (js_sort (intervals_of ?es))),
           burstSpeed := calc_burstSpeed (intervals_of ?es) \<rparr>"
  define H2 where "H2 = h0 @ [NumObject [], NumObject [], NumArray [], NumObject [],
     PatternObject po2, NumArray (intervals_of ?es), NumArray (js_sort (intervals_of ?es))]"
  have t2: "timing_h ev ?p ?H1 = H2"
    unfolding t H2_def po2_def by (simp add: list_update_append)
  have ev2: "events_at H2 ev = ?es" unfolding H2_def by (rule events_at_append) simp
  have mu2: "modifierUsage po2 = Suc ?n" by (simp add: po2_def pattern_refs_def)
  have p2: "?p < length H2" "H2 ! ?p = PatternObject po2" "modifierUsage po2 < length H2"
    "modifierUsage po2 \<noteq> ?p" "H2 ! modifierUsage po2 = NumObject []"
    unfolding mu2 by (simp_all add: H2_def nth_append)
  note sc = scan_h_eq [OF p2, of ev, unfolded ev2 mu2]
  let ?sf = "scan_events ?es"
  define H3 where "H3 = h0 @ [NumObject [], NumObject (usage ?sf), NumArray [], NumObject [],
     PatternObject po2, NumArray (intervals_of ?es), NumArray (js_sort (intervals_of ?es)),
     CountArray (final_wordLengths ?sf), CountObject (keyDistribution ?sf)]"
  have len2: "length H2 = ?n + 7" by (simp add: H2_def)
  have s3: "scan_h ev ?p H2 = ((?sf, ?n + 7, ?n + 8), H3)"
    unfolding sc by (simp add: H2_def H3_def list_update_append)
  have ev3: "events_at H3 ev = ?es" unfolding H3_def by (rule events_at_append) simp
  have p3: "?p < length H3" "H3 ! ?p = PatternObject po2"
    "?n + 7 < length H3" "H3 ! (?n + 7) = CountArray (final_wordLengths ?sf)"
    "?n + 8 < length H3" "H3 ! (?n + 8) = CountObject (keyDistribution ?sf)" "?p \<noteq> ?n + 7"
    by (simp_all add: H3_def nth_append)
  note fi = finish_h_eq [OF p3, of ev ?sf, unfolded ev3]
  have ev1': "\<not> length (events_at ?H1 ev) < 2" unfolding ev1 by (rule assms(1))
  have "calculateTypingPattern_h ev h0 =
          (?p, finish_h ev ?p ?sf (?n + 7) (?n + 8) H3)"
    unfolding calculateTypingPattern_h_def new_pattern_eq Let_def split
    by (simp only: ev1' if_False t2 s3 split)
  also have "finish_h ev ?p ?sf (?n + 7) (?n + 8) H3 = h0 @ [NumObject [], NumObject (usage (scan_events ?es)), NumArray [], NumObject [],
                  PatternObject
                    ((pattern_refs (length h0) (Suc (length h0)) (Suc (Suc (length h0)))
                       (Suc (Suc (Suc (length h0)))))
                    \<lparr> timingPatterns := length h0 + 5,
                      averageSpeed := calc_averageSpeed (js_sort (intervals_of ?es)),
                      rhythmConsistency :=
                        calc_rhythmConsistency (intervals_of ?es)
                          (calc_averageSpeed (js_sort (intervals_of ?es))),
                      speedVariability :=
                        calc_speedVariability (js_sort (intervals_of ?es))
                          (calc_averageSpeed (js_sort (intervals_of ?es))),
                      pauseFrequency :=
                        calc_pauseFrequency (intervals_of ?es)
                          (calc_averageSpeed (js_sort (intervals_of ?es))),
                      burstSpeed := calc_burstSpeed (intervals_of ?es),
                      keyPressDistribution := length h0 + 9,
                      errorRate :=
                        calc_errorRate (scan_events ?es)
                          (calc_speedVariability (js_sort (intervals_of ?es))
                             (calc_averageSpeed (js_sort (intervals_of ?es)))),
                      averageWordLength :=
                        (if 0 < length (final_wordLengths (scan_events ?es))
                         then calc_averageWordLength (sort (final_wordLengths (scan_events ?es)))
                         else Num 0),
                      modifierFrequency :=
                        (if 0 < length ?es
                         then js_div (Num (real (modifierCount (scan_events ?es))))
                                     (Num (real (length ?es)))
                         else Num 0),
                      capitalFrequency :=
                        (if 0 < totalChars (scan_events ?es)
                         then js_div (Num (real (capitalCount (scan_events ?es))))
                                     (Num (real (totalChars (scan_events ?es))))
                         else Num 0),
                      punctuationFrequency :=
                        (if 0 < totalChars (scan_events ?es)
                         then js_div (Num (real (punctuationCount (scan_events ?es))))
                                     (Num (real (totalChars (scan_events ?es))))
                         else Num 0),
                      backspaceFrequency :=
                        (if 0 < totalChars (scan_events ?es)
                         then js_div (Num (real (backspaceCount (scan_events ?es))))
                                     (Num (real (totalChars (scan_events ?es))))
                         else Num 0) \<rparr>),
                  NumArray (intervals_of ?es),
                  NumArray (js_sort (intervals_of ?es)),
                  CountArray (if 0 < length (final_wordLengths (scan_events ?es))
                              then sort (final_wordLengths (scan_events ?es))
                              else final_wordLengths (scan_events ?es)),
                  CountObject (keyDistribution (scan_events ?es)),
                  NumObject (calc_keyPressDistribution (keyDistribution (scan_events ?es)))]"
    unfolding fi
    by (simp add: H3_def po2_def list_update_append pattern_refs_def)
  finally show ?thesis by (simp only: assms(2))
qed

lemma calculateTypingPattern_h_refines:
  "pattern_at (snd (calculateTypingPattern_h ev h0)) (fst (calculateTypingPattern_h ev h0)) =
     calculateTypingPattern (events_at h0 ev)"
proof (cases "length (events_at h0 ev) < 2")
  case True
  show ?thesis
    unfolding calculateTypingPattern_h_short [OF True]
    using True
    by (simp add: pattern_at_def pattern_obj_at_def num_obj_at_def nums_at_def nth_append
          pattern_refs_def calculateTypingPattern_def default_pattern_def)
next
  case False
  then have pos: "0 < length (events_at h0 ev)" by (cases "events_at h0 ev") simp_all
  show ?thesis
    unfolding calculateTypingPattern_h_long [OF False refl]
    using False pos
    by (simp add: pattern_at_def pattern_obj_at_def num_obj_at_def nums_at_def nth_append
          pattern_refs_def calculateTypingPattern_def default_pattern_def Let_def
          js_slice_from_1 intervals_of_def)
qed

lemma calculateTypingPattern_h_frame:
  "take (length h0) (snd (calculateTypingPattern_h ev h0)) = h0"
proof (cases "length (events_at h0 ev) < 2")
  case True
  show ?thesis unfolding calculateTypingPattern_h_short [OF True] by simp
next
  case False
  show ?thesis unfolding calculateTypingPattern_h_long [OF False refl] by simp
qed

lemma calculateTypingPattern_h_fresh:
  "length h0 \<le> fst (calculateTypingPattern_h ev h0) \<and>
   length h0 \<le> keyPressDistribution
     (pattern_obj_at (snd (calculateTypingPattern_h ev h0)) (fst (calculateTypingPattern_h ev h0))) \<and>
   length h0 \<le> modifierUsage
     (pattern_obj_at (snd (calculateTypingPattern_h ev h0)) (fst (calculateTypingPattern_h ev h0))) \<and>
   length h0 \<le> timingPatterns
     (pattern_obj_at (snd (calculateTypingPattern_h ev h0)) (fst (calculateTypingPattern_h ev h0))) \<and>
   length h0 \<le> specialKeyFrequency
     (pattern_obj_at (snd (calculateTypingPattern_h ev h0)) (fst (calculateTypingPattern_h ev h0)))"
proof (cases "length (events_at h0 ev) < 2")
  case True
  show ?thesis
    unfolding calculateTypingPattern_h_short [OF True]
    by (simp add: pattern_obj_at_def nth_append pattern_refs_def)
next
  case False
  show ?thesis
    unfolding calculateTypingPattern_h_long [OF False refl]
    by (simp add: pattern_obj_at_def nth_append pattern_refs_def)
qed

lemma calculateTypingPattern_h_events:
  "events_at (snd (calculateTypingPattern_h ev h0)) ev = events_at h0 ev"
proof (cases "length (events_at h0 ev) < 2")
  case True
  show ?thesis
    unfolding calculateTypingPattern_h_short [OF True] snd_conv
    by (rule events_at_append) simp
next
  case False
  show ?thesis
    unfolding calculateTypingPattern_h_long [OF False refl] snd_conv
    by (rule events_at_append) simp
qed

subsection \<open>comparePatterns over the heap\<close>

lemma reads_append_KeySet:
  "pattern_obj_at (h @ [KeySet ks]) a = pattern_obj_at h a"
  "num_obj_at (h @ [KeySet ks]) a = num_obj_at h a"
  "nums_at (h @ [KeySet ks]) a = nums_at h a"
  by (simp_all add: pattern_obj_at_def num_obj_at_def nums_at_def nth_append less_Suc_eq)

lemma pattern_at_append_KeySet: "pattern_at (h @ [KeySet ks]) a = pattern_at h a"
  by (simp add: pattern_at_def reads_append_KeySet)

lemma comparePatterns_h_refines:
  "fst (comparePatterns_h p1 p2 h0) = comparePatterns (pattern_at h0 p1) (pattern_at h0 p2)"
  by (simp add: comparePatterns_h_def alloc_def pattern_at_append_KeySet)

lemma comparePatterns_h_frame:
  "take (length h0) (snd (comparePatterns_h p1 p2 h0)) = h0"
  "pattern_at (snd (comparePatterns_h p1 p2 h0)) a = pattern_at h0 a"
  by (simp_all add: comparePatterns_h_def alloc_def pattern_at_append_KeySet)

text \<open>
  C9. Whatever the heap and the arguments: after \<open>calculateTypingPattern\<close> every cell
  that existed before the call is as it was, the event array in particular; the
  pattern returned and its four containers are cells allocated by the call. After
  \<open>comparePatterns\<close> every cell that existed before the call is as it was, and the two
  patterns read the same.
\<close>

theorem calls_leave_arguments_unchanged:
  "take (length h) (snd (calculateTypingPattern_h events h)) = h \<and>
   events_at (snd (calculateTypingPattern_h events h)) events = events_at h events \<and>
   length h \<le> fst (calculateTypingPattern_h events h) \<and>
   length h \<le> keyPressDistribution
     (pattern_obj_at (snd (calculateTypingPattern_h events h))
        (fst (calculateTypingPattern_h events h))) \<and>
   length h \<le> modifierUsage
     (pattern_obj_at (snd (calculateTypingPattern_h events h))
        (fst (calculateTypingPattern_h events h))) \<and>
   length h \<le> timingPatterns
     (pattern_obj_at (snd (calculateTypingPattern_h events h))
        (fst (calculateTypingPattern_h events h))) \<and>
   length h \<le> specialKeyFrequency
     (pattern_obj_at (snd (calculateTypingPattern_h events h))
        (fst (calculateTypingPattern_h events h))) \<and>
   take (length h) (snd (comparePatterns_h pattern1 pattern2 h)) = h \<and>
   pattern_at (snd (comparePatterns_h pattern1 pattern2 h)) pattern1 = pattern_at h pattern1 \<and>
   pattern_at (snd (comparePatterns_h pattern1 pattern2 h)) pattern2 = pattern_at h pattern2"
  using calculateTypingPattern_h_frame [where ?h0.0 = h and ev = events]
    calculateTypingPattern_h_events [where ?h0.0 = h and ev = events]
    calculateTypingPattern_h_fresh [where ?h0.0 = h and ev = events]
    comparePatterns_h_frame [where ?h0.0 = h and ?p1.0 = pattern1 and ?p2.0 = pattern2]
  by simp

end
